theory Spec2Isabelle
  imports Complex_Main "HOL-Library.Multiset"
begin

section \<open>Overview\<close>

text \<open>
  A model of the speech-to-text pipeline of the editor: the transcript types and their
  subtitle export (\<open>types/transcript.ts\<close>), audio extraction and mixing
  (\<open>lib/audio-extraction.ts\<close>), the streaming callbacks of the speech-to-text worker, and
  the speech-to-text store with its projection of a transcript onto the timeline. Every
  function keeps the name it has in the sources; the fields of a record carry a prefix,
  since several records of the sources share field names. The definitions come first, the
  properties after them.
\<close>

section \<open>Numbers and strings of the source language\<close>

text \<open>
  The sources are TypeScript and JavaScript. A \<open>number\<close> is an IEEE 754 double. It is
  modelled as the real it denotes, and an arithmetic operation on times gives the exact
  result rounded to the nearest double, of two nearest ones the one with the even
  significand. The exponent is not bounded in the model: overflow to an infinity, the
  precision lost below \<open>2^-1022\<close> and \<open>NaN\<close> are outside it. Comparisons, \<open>Math.max\<close>,
  \<open>Math.floor\<close> and \<open>%\<close> are exact on doubles. The arithmetic on audio samples, further
  down, is kept exact. A string is a list of characters; the characters the model knows
  are the code units below 256.
\<close>

type_synonym number = real

text \<open>The integer nearest to \<open>q\<close>; of two nearest ones, the even one.\<close>

definition roundHalfEven :: "real \<Rightarrow> int" where
  "roundHalfEven q =
     (let f = \<lfloor>q\<rfloor>; r = q - of_int f
      in if r < 1/2 then f else if 1/2 < r then f + 1 else if even f then f else f + 1)"

text \<open>The distance between neighbouring doubles around \<open>x\<close>: a double has 53 significant
  bits, so for \<open>2^e \<le> |x| < 2^(e+1)\<close> it is \<open>2^(e-52)\<close>.\<close>

definition ulp :: "real \<Rightarrow> real" where
  "ulp x = 2 powi (\<lfloor>log 2 \<bar>x\<bar>\<rfloor> - 52)"

definition roundToDouble :: "real \<Rightarrow> number" where
  "roundToDouble x = (if x = 0 then 0 else of_int (roundHalfEven (x / ulp x)) * ulp x)"

text \<open>The reals that are doubles.\<close>

definition isDouble :: "real \<Rightarrow> bool" where
  "isDouble x = (roundToDouble x = x)"

text \<open>\<open>a + b\<close>, \<open>a - b\<close>, \<open>a * b\<close> and \<open>a / b\<close>.\<close>

definition addNum :: "number \<Rightarrow> number \<Rightarrow> number" where
  "addNum a b = roundToDouble (a + b)"

definition subNum :: "number \<Rightarrow> number \<Rightarrow> number" where
  "subNum a b = roundToDouble (a - b)"

definition mulNum :: "number \<Rightarrow> number \<Rightarrow> number" where
  "mulNum a b = roundToDouble (a * b)"

definition divNum :: "number \<Rightarrow> number \<Rightarrow> number" where
  "divNum a b = roundToDouble (a / b)"

text \<open>White space as \<open>String.prototype.trim\<close> and the regular expression class \<open>\s\<close>
  see it, among the code units below 256: tab, line feed, vertical tab, form feed,
  carriage return, space and no-break space.\<close>

definition isWhitespace :: "char \<Rightarrow> bool" where
  "isWhitespace c = (c \<in> {CHR 0x09, CHR 0x0A, CHR 0x0B, CHR 0x0C, CHR 0x0D, CHR 0x20, CHR 0xA0})"

definition trim :: "string \<Rightarrow> string" where
  "trim s = rev (dropWhile isWhitespace (rev (dropWhile isWhitespace s)))"

text \<open>\<open>s.split(/\s+/)\<close>: the pieces of \<open>s\<close> between maximal runs of white space. The
  empty string gives one empty piece; leading or trailing white space gives an empty
  first or last piece. \<open>inSep\<close> says that the previous character was white space, \<open>cur\<close>
  is the piece being read, reversed.\<close>

fun splitWs :: "bool \<Rightarrow> string \<Rightarrow> string \<Rightarrow> string list" where
  "splitWs inSep cur [] = [rev cur]"
| "splitWs inSep cur (c # cs) =
     (if isWhitespace c
      then (if inSep then splitWs True cur cs else rev cur # splitWs True [] cs)
      else splitWs False (c # cur) cs)"

definition splitWhitespace :: "string \<Rightarrow> string list" where
  "splitWhitespace s = splitWs False [] s"

text \<open>\<open>xs.join(sep)\<close>.\<close>

fun join :: "string \<Rightarrow> string list \<Rightarrow> string" where
  "join sep [] = []"
| "join sep [x] = x"
| "join sep (x # y # ys) = x @ sep @ join sep (y # ys)"

text \<open>The decimal digits of a natural number, as \<open>Number.prototype.toString\<close> prints a
  non-negative integer below \<open>2^53\<close>.\<close>

definition digitChar :: "nat \<Rightarrow> char" where
  "digitChar d = ''0123456789'' ! d"

fun natToString :: "nat \<Rightarrow> string" where
  "natToString n = (if n < 10 then [digitChar n] else natToString (n div 10) @ [digitChar (n mod 10)])"

declare natToString.simps [simp del]

text \<open>\<open>Number.prototype.toString\<close>: an integer below \<open>2^53\<close> in absolute value is printed
  with its decimal digits, after a minus sign when it is negative. Any other number is
  printed with the shortest digits that read back as the same double, with a decimal
  point, padding zeros or an exponent as needed; that printer is the argument
  \<open>printOther\<close>.\<close>

definition numberToString :: "(number \<Rightarrow> string) \<Rightarrow> number \<Rightarrow> string" where
  "numberToString printOther x =
     (if x \<in> \<int> \<and> \<bar>x\<bar> < 2 ^ 53
      then (if x < 0 then ''-'' @ natToString (nat \<lfloor>- x\<rfloor>) else natToString (nat \<lfloor>x\<rfloor>))
      else printOther x)"

text \<open>\<open>s.padStart(n, c)\<close> for a one-character \<open>c\<close>.\<close>

definition padStart :: "nat \<Rightarrow> char \<Rightarrow> string \<Rightarrow> string" where
  "padStart n c s = replicate (n - length s) c @ s"

text \<open>\<open>a % b\<close>: the remainder of the division that truncates toward zero. The remainder
  of two doubles is a double, so nothing is rounded.\<close>

definition remainder :: "number \<Rightarrow> number \<Rightarrow> number" where
  "remainder a b = a - b * of_int (if a / b \<ge> 0 then \<lfloor>a / b\<rfloor> else \<lceil>a / b\<rceil>)"

section \<open>Transcript model (types/transcript.ts)\<close>

record TranscriptWord =
  w_text :: string
  w_startTime :: number
  w_endTime :: number

record TranscriptChunk =
  c_words :: "TranscriptWord list"
  c_startTime :: number
  c_endTime :: number
  c_text :: string

record Transcript =
  t_id :: string
  t_chunks :: "TranscriptChunk list"
  t_language :: string
  t_totalDuration :: number

text \<open>The engine output that \<open>createTranscriptFromWhisperOutput\<close> receives. Optional
  members are options; a \<open>timestamp\<close> is a pair of seconds.\<close>

record RawWord =
  rw_text :: string
  rw_timestamp :: "number \<times> number"

record RawChunk =
  rc_timestamp :: "number \<times> number"
  rc_text :: string
  rc_words :: "RawWord list option"

record WhisperOutput =
  wo_text :: string
  wo_chunks :: "RawChunk list option"
  wo_words :: "RawWord list option"

definition toTranscriptWord :: "RawWord \<Rightarrow> TranscriptWord" where
  "toTranscriptWord word =
     \<lparr> w_text = rw_text word,
       w_startTime = mulNum (fst (rw_timestamp word)) 1000,
       w_endTime = mulNum (snd (rw_timestamp word)) 1000 \<rparr>"

text \<open>\<open>x && x.length > 0\<close> for an optional array.\<close>

definition present :: "'a list option \<Rightarrow> bool" where
  "present xs = (case xs of None \<Rightarrow> False | Some ys \<Rightarrow> length ys > 0)"

text \<open>The fallback branch: the trimmed text is split on white space and every piece gets
  the same share of the chunk's duration, one after the other. An \<open>index\<close> and
  \<open>index + 1\<close> are whole numbers far below \<open>2^53\<close>, where the addition is exact.\<close>

definition fallbackWords :: "number \<Rightarrow> number \<Rightarrow> string \<Rightarrow> TranscriptWord list" where
  "fallbackWords startTime endTime text =
     (let words = splitWhitespace (trim text);
          wordDuration = divNum (subNum endTime startTime) (real (length words))
      in map (\<lambda>(index, word).
                \<lparr> w_text = word,
                  w_startTime = addNum startTime (mulNum (real index) wordDuration),
                  w_endTime = addNum startTime (mulNum (real index + 1) wordDuration) \<rparr>)
             (enumerate 0 words))"

text \<open>The body of the \<open>map\<close> over the chunks: one raw chunk to one transcript chunk.\<close>

definition convertChunk :: "WhisperOutput \<Rightarrow> RawChunk \<Rightarrow> TranscriptChunk" where
  "convertChunk whisperOutput chunk =
     (let startTime = mulNum (fst (rc_timestamp chunk)) 1000;
          endTime = mulNum (snd (rc_timestamp chunk)) 1000;
          transcriptWords =
            (if present (rc_words chunk)
             then map toTranscriptWord (the (rc_words chunk))
             else if present (wo_words whisperOutput)
             then map toTranscriptWord
                    (filter (\<lambda>word. let wordStart = mulNum (fst (rw_timestamp word)) 1000
                                     in wordStart \<ge> startTime \<and> wordStart \<le> endTime)
                            (the (wo_words whisperOutput)))
             else fallbackWords startTime endTime (rc_text chunk))
      in \<lparr> c_words = transcriptWords,
           c_startTime = startTime,
           c_endTime = endTime,
           c_text = trim (rc_text chunk) \<rparr>)"

text \<open>\<open>Math.max(...xs)\<close> on a non-empty list.\<close>

fun mathMax :: "number list \<Rightarrow> number" where
  "mathMax [] = 0"
| "mathMax (x # xs) = foldl max x xs"

text \<open>The identifier is \<open>crypto.randomUUID()\<close> in the source; here it is an argument.\<close>

definition createTranscriptFromWhisperOutput :: "string \<Rightarrow> WhisperOutput \<Rightarrow> Transcript" where
  "createTranscriptFromWhisperOutput uuid whisperOutput =
     (let chunks = map (convertChunk whisperOutput)
                       (case wo_chunks whisperOutput of None \<Rightarrow> [] | Some cs \<Rightarrow> cs);
          totalDuration = (if length chunks > 0 then mathMax (map c_endTime chunks) else 0)
      in \<lparr> t_id = uuid, t_chunks = chunks, t_language = ''en'',
           t_totalDuration = totalDuration \<rparr>)"

subsection \<open>Subtitle export\<close>

definition millisecondsToSRTTime :: "(number \<Rightarrow> string) \<Rightarrow> number \<Rightarrow> string" where
  "millisecondsToSRTTime printOther ms =
     (let hours = of_int \<lfloor>divNum ms 3600000\<rfloor>;
          minutes = of_int \<lfloor>divNum (remainder ms 3600000) 60000\<rfloor>;
          seconds = of_int \<lfloor>divNum (remainder ms 60000) 1000\<rfloor>;
          milliseconds = remainder ms 1000
      in padStart 2 (CHR ''0'') (numberToString printOther hours) @ '':''
         @ padStart 2 (CHR ''0'') (numberToString printOther minutes) @ '':''
         @ padStart 2 (CHR ''0'') (numberToString printOther seconds) @ '',''
         @ padStart 3 (CHR ''0'') (numberToString printOther milliseconds))"

record SRTSegment =
  srt_index :: nat
  srt_startTime :: string
  srt_endTime :: string
  srt_text :: string

definition segmentText :: "SRTSegment \<Rightarrow> string" where
  "segmentText segment =
     natToString (srt_index segment) @ [CHR 0x0A]
     @ srt_startTime segment @ '' --> '' @ srt_endTime segment @ [CHR 0x0A]
     @ srt_text segment @ [CHR 0x0A]"

definition srtSegments :: "(number \<Rightarrow> string) \<Rightarrow> Transcript \<Rightarrow> SRTSegment list" where
  "srtSegments printOther transcript =
     map (\<lambda>(index, chunk).
            \<lparr> srt_index = index + 1,
              srt_startTime = millisecondsToSRTTime printOther (c_startTime chunk),
              srt_endTime = millisecondsToSRTTime printOther (c_endTime chunk),
              srt_text = trim (c_text chunk) \<rparr>)
         (enumerate 0 (t_chunks transcript))"

definition transcriptToSRT :: "(number \<Rightarrow> string) \<Rightarrow> Transcript \<Rightarrow> string" where
  "transcriptToSRT printOther transcript =
     join [CHR 0x0A] (map segmentText (srtSegments printOther transcript))"

section \<open>The words of a text\<close>

text \<open>What the specification calls the whitespace-split words of a text, written without
  reference to \<open>trim\<close> or \<open>split\<close>: white space is skipped, the characters up to the next
  white space are one word, and so on to the end of the text. A text with no other
  character than white space has no word.\<close>

function wordsOf :: "string \<Rightarrow> string list" where
  "wordsOf s =
     (case dropWhile isWhitespace s of
        [] \<Rightarrow> []
      | c # cs \<Rightarrow> takeWhile (\<lambda>x. \<not> isWhitespace x) (c # cs)
                 # wordsOf (dropWhile (\<lambda>x. \<not> isWhitespace x) (c # cs)))"
  by pat_completeness auto

termination wordsOf
proof (relation "measure length")
  fix s :: string and c cs
  assume d: "dropWhile isWhitespace s = c # cs"
  have "length (dropWhile (\<lambda>x. \<not> isWhitespace x) (c # cs)) < length (c # cs)"
  proof -
    have "\<not> isWhitespace c" using d by (metis hd_dropWhile list.sel(1) list.distinct(1))
    then have "dropWhile (\<lambda>x. \<not> isWhitespace x) (c # cs) = dropWhile (\<lambda>x. \<not> isWhitespace x) cs"
      by simp
    then show ?thesis using length_dropWhile_le [of "\<lambda>x. \<not> isWhitespace x" cs] by simp
  qed
  moreover have "length (c # cs) \<le> length s"
    using length_dropWhile_le [of isWhitespace s] by (simp only: d)
  ultimately show "(dropWhile (\<lambda>x. \<not> isWhitespace x) (c # cs), s) \<in> measure length"
    by simp
qed simp

declare wordsOf.simps [simp del]

section \<open>Projection onto the timeline (insertResultToTimeline of the speech-to-text store)\<close>

text \<open>A text element of the timeline. The random \<open>id\<close> and the constant \<open>type\<close> tag
  \<open>'text'\<close> are left out.\<close>

record TextElement =
  te_name :: string
  te_content :: string
  te_duration :: number
  te_startTime :: number
  te_trimStart :: number
  te_trimEnd :: number
  te_fontSize :: number
  te_fontFamily :: string
  te_color :: string
  te_backgroundColor :: string
  te_textAlign :: string
  te_fontWeight :: string
  te_fontStyle :: string
  te_textDecoration :: string
  te_x :: number
  te_y :: number
  te_rotation :: number
  te_opacity :: number

text \<open>A stored transcription result; its \<open>createdAt\<close> date is left out. The timestamps of
  its \<open>chunks\<close> are in seconds.\<close>

record ResultChunk =
  rs_timestamp :: "number \<times> number"
  rs_text :: string

record TranscriptionResult =
  r_id :: string
  r_trackId :: string
  r_trackName :: string
  r_text :: string
  r_chunks :: "ResultChunk list"
  r_transcript :: Transcript

datatype InsertMode = Sentences | Words

definition styledElement :: "string \<Rightarrow> string \<Rightarrow> number \<Rightarrow> number \<Rightarrow> TextElement" where
  "styledElement name content duration startTime =
     \<lparr> te_name = name, te_content = content, te_duration = duration,
       te_startTime = startTime, te_trimStart = 0, te_trimEnd = 0,
       te_fontSize = 36, te_fontFamily = ''Arial'', te_color = ''#ffffff'',
       te_backgroundColor = ''rgba(0, 0, 0, 0.7)'', te_textAlign = ''center'',
       te_fontWeight = ''bold'', te_fontStyle = ''normal'', te_textDecoration = ''none'',
       te_x = 0, te_y = 200, te_rotation = 0, te_opacity = 1 \<rparr>"

text \<open>Word mode: the body of the inner \<open>forEach\<close>; \<open>wordCount\<close> is the number of words
  pushed before this one.\<close>

definition wordElement :: "number \<Rightarrow> nat \<Rightarrow> TranscriptWord \<Rightarrow> TextElement" where
  "wordElement timelineOffset wordCount word =
     (let startTime = addNum timelineOffset (divNum (w_startTime word) 1000);
          duration = divNum (subNum (w_endTime word) (w_startTime word)) 1000
      in styledElement (''Word '' @ natToString (wordCount + 1) @ '': '' @ w_text word)
           (w_text word) (max duration 0.5) startTime)"

text \<open>Sentence mode: the body of the \<open>forEach\<close> over \<open>result.chunks\<close>.\<close>

definition sentenceElement :: "number \<Rightarrow> nat \<Rightarrow> ResultChunk \<Rightarrow> TextElement" where
  "sentenceElement timelineOffset index chunk =
     (let duration = subNum (snd (rs_timestamp chunk)) (fst (rs_timestamp chunk));
          startTime = addNum timelineOffset (fst (rs_timestamp chunk));
          words = splitWhitespace (trim (rs_text chunk));
          shortText = (if length words > 3 then join '' '' (take 3 words) @ ''...''
                       else rs_text chunk)
      in styledElement (''Subtitle '' @ natToString (index + 1) @ '': '' @ shortText)
           (trim (rs_text chunk)) (max duration 1) startTime)"

definition buildTextElements :: "InsertMode \<Rightarrow> number \<Rightarrow> TranscriptionResult \<Rightarrow> TextElement list" where
  "buildTextElements mode timelineOffset result =
     (case mode of
        Words \<Rightarrow>
          map (\<lambda>(wordCount, word). wordElement timelineOffset wordCount word)
              (enumerate 0 (concat (map c_words (t_chunks (r_transcript result)))))
      | Sentences \<Rightarrow>
          map (\<lambda>(index, chunk). sentenceElement timelineOffset index chunk)
              (enumerate 0 (r_chunks result)))"

text \<open>\<open>[...textElements].sort((a, b) => a.startTime - b.startTime)\<close>: the sort of an
  array is stable, as the insertion sort \<^const>\<open>sort_key\<close> is. The rounded difference of
  two doubles has the sign of the exact difference, so the order is that of the start
  times.\<close>

definition sortByStartTime :: "TextElement list \<Rightarrow> TextElement list" where
  "sortByStartTime textElements = sort_key te_startTime textElements"

text \<open>The loop over \<open>sortedElements\<close>: \<open>current\<close> is a copy of element \<open>i\<close>, \<open>next\<close> is
  element \<open>i + 1\<close> of the sorted (not the resolved) array, absent for the last one.\<close>

fun resolveOverlaps :: "TextElement list \<Rightarrow> TextElement list" where
  "resolveOverlaps [] = []"
| "resolveOverlaps [current] = [current]"
| "resolveOverlaps (current # next # rest) =
     (if addNum (te_startTime current) (te_duration current) > te_startTime next
      then current\<lparr>te_duration := subNum (te_startTime next) (te_startTime current)\<rparr>
      else current) # resolveOverlaps (next # rest)"


text \<open>An element of a timeline track as these sources read it (the timeline types are not
  part of them): its identifier, its kind, the media item it shows and its timing.\<close>

datatype ElementType = MediaElement | TextElementType

record TimelineElement =
  e_id :: string
  e_type :: ElementType
  e_mediaId :: string
  e_startTime :: number
  e_duration :: number
  e_trimStart :: number
  e_trimEnd :: number

text \<open>The chunk that replaces the result's chunks after an insertion: the times of the
  resolved element on the timeline.\<close>

definition resolvedChunk :: "TextElement \<Rightarrow> ResultChunk" where
  "resolvedChunk el =
     \<lparr> rs_timestamp = (te_startTime el, addNum (te_startTime el) (te_duration el)),
       rs_text = te_content el \<rparr>"

text \<open>The timeline store and the media store are not part of these sources. What
  \<open>getSelectedElementInfo\<close> returns is an argument (only the selected element's
  \<open>startTime\<close> is read), and the effect on the timeline store is the list of elements
  handed to \<open>addElementToTrack\<close> for the new track, in call order. The result of
  \<open>insertResultToTimeline\<close> is \<open>None\<close> on each early return, otherwise that list and
  the updated \<open>results\<close>.\<close>

definition insertResultToTimeline ::
  "TranscriptionResult list \<Rightarrow> TimelineElement option \<Rightarrow> string \<Rightarrow> InsertMode
     \<Rightarrow> (TextElement list \<times> TranscriptionResult list) option" where
  "insertResultToTimeline results elementInfo resultId mode =
     (case find (\<lambda>r. r_id r = resultId) results of
        None \<Rightarrow> None
      | Some result \<Rightarrow>
          (case elementInfo of
             None \<Rightarrow> None
           | Some element \<Rightarrow>
               (let timelineOffset = e_startTime element;
                    textElements = buildTextElements mode timelineOffset result;
                    sortedElements = sortByStartTime textElements;
                    resolvedElements = resolveOverlaps sortedElements
                in Some (resolvedElements,
                         map (\<lambda>r. if r_id r = resultId
                                   then r\<lparr>r_chunks := map resolvedChunk resolvedElements\<rparr>
                                   else r)
                             results))))"

text \<open>The record that the worker's \<open>complete\<close> message puts into \<open>results\<close>.\<close>

definition completedResult ::
  "string \<Rightarrow> string \<Rightarrow> string \<Rightarrow> string \<Rightarrow> WhisperOutput \<Rightarrow> TranscriptionResult" where
  "completedResult uuid transcriptUuid trackId trackName output =
     \<lparr> r_id = uuid, r_trackId = trackId, r_trackName = trackName,
       r_text = wo_text output,
       r_chunks = map (\<lambda>c. \<lparr> rs_timestamp = rc_timestamp c, rs_text = rc_text c \<rparr>)
                      (case wo_chunks output of None \<Rightarrow> [] | Some cs \<Rightarrow> cs),
       r_transcript = createTranscriptFromWhisperOutput transcriptUuid output \<rparr>"

text \<open>The timing of an element: its start time and its duration.\<close>

definition timing :: "TextElement \<Rightarrow> number \<times> number" where
  "timing el = (te_startTime el, te_duration el)"

section \<open>Audio extraction (lib/audio-extraction.ts and extractAudioFromElement of the store)\<close>

text \<open>A decoded \<open>AudioBuffer\<close>: its sample rate, its length in sample frames and the data
  of its channels. Samples are \<open>Float32\<close> values in the source and exact reals here.
  A thrown \<open>Error\<close> is \<open>Inl\<close> of its message; \<open>RangeError\<close> is what
  \<open>new Float32Array\<close> throws for a negative length, \<open>IndexSizeError\<close> what
  \<open>getChannelData\<close> throws for a channel that does not exist. Failures of the browser
  to provide an \<open>AudioContext\<close> are outside the model.\<close>

record AudioBuffer =
  ab_sampleRate :: number
  ab_length :: nat
  ab_channelData :: "number list list"

datatype error = Error string | RangeError | IndexSizeError

definition numberOfChannels :: "AudioBuffer \<Rightarrow> nat" where
  "numberOfChannels b = length (ab_channelData b)"

definition ab_duration :: "AudioBuffer \<Rightarrow> number" where
  "ab_duration b = real (ab_length b) / ab_sampleRate b"

text \<open>\<open>audioContext.createBuffer(channels, length, sampleRate)\<close>: silence.\<close>

definition createBuffer :: "nat \<Rightarrow> nat \<Rightarrow> number \<Rightarrow> AudioBuffer" where
  "createBuffer channels len sampleRate =
     \<lparr> ab_sampleRate = sampleRate, ab_length = len,
       ab_channelData = replicate channels (replicate len 0) \<rparr>"

text \<open>The copy loop \<open>targetData[i] = sourceData[actualStartSample + i]\<close>.\<close>

definition copySamples :: "number list \<Rightarrow> nat \<Rightarrow> nat \<Rightarrow> number list" where
  "copySamples sourceData actualStartSample actualDurationSamples =
     map (\<lambda>i. sourceData ! (actualStartSample + i)) [0..<actualDurationSamples]"

definition trimAudioBuffer :: "AudioBuffer \<Rightarrow> number \<Rightarrow> number \<Rightarrow> AudioBuffer" where
  "trimAudioBuffer audioBuffer startSeconds durationSeconds =
     (let sampleRate = ab_sampleRate audioBuffer;
          startSample = \<lfloor>startSeconds * sampleRate\<rfloor>;
          durationSamples = \<lfloor>durationSeconds * sampleRate\<rfloor>;
          actualStartSample = max 0 (min startSample (int (ab_length audioBuffer) - 1));
          actualDurationSamples = min durationSamples (int (ab_length audioBuffer) - actualStartSample)
      in if actualDurationSamples \<le> 0
         then createBuffer (numberOfChannels audioBuffer) 1 sampleRate
         else \<lparr> ab_sampleRate = sampleRate,
                ab_length = nat actualDurationSamples,
                ab_channelData =
                  map (\<lambda>sourceData. copySamples sourceData (nat actualStartSample) (nat actualDurationSamples))
                      (ab_channelData audioBuffer) \<rparr>)"

record AudioSegment =
  seg_audioBuffer :: AudioBuffer
  seg_startTime :: number
  seg_duration :: number

text \<open>What \<open>concatenateAudioSegments\<close> returns: an \<open>ExtractedAudio\<close> without its
  \<open>timelineOffset\<close>.\<close>

record ConcatenatedAudio =
  ca_audioData :: "number list"
  ca_sampleRate :: number
  ca_duration :: number

record ExtractedAudio =
  ea_audioData :: "number list"
  ea_sampleRate :: number
  ea_duration :: number
  ea_timelineOffset :: number

text \<open>\<open>normalizeAudio\<close>: the peak is found with \<open>Math.max\<close> from 0; the array is scaled
  in place when the peak exceeds 1.\<close>

definition maxAmplitude :: "number list \<Rightarrow> number" where
  "maxAmplitude audioData = foldl (\<lambda>m x. max m \<bar>x\<bar>) 0 audioData"

definition normalizeAudio :: "number list \<Rightarrow> number list" where
  "normalizeAudio audioData =
     (let m = maxAmplitude audioData
      in if m > 1 then (let normalizationFactor = 0.95 / m
                        in map (\<lambda>x. x * normalizationFactor) audioData)
         else audioData)"

text \<open>The inner loop of \<open>concatenateAudioSegments\<close> for one segment: \<open>mixStep\<close> is
  its body for index \<open>i\<close>. A write at a negative index of a typed array has no effect,
  so the update is guarded on both sides.\<close>

definition mixStep :: "int \<Rightarrow> number list \<Rightarrow> number list \<Rightarrow> nat \<Rightarrow> number list" where
  "mixStep startSample segmentData out i =
     (let outputIndex = startSample + int i
      in if outputIndex < int (length out) \<and> 0 \<le> outputIndex
         then out[nat outputIndex := out ! nat outputIndex + segmentData ! i]
         else out)"

definition mixSegment :: "number list \<Rightarrow> int \<Rightarrow> number list \<Rightarrow> number list" where
  "mixSegment outputData startSample segmentData =
     (let copyLength = min (int (length segmentData)) (int (length outputData) - startSample)
      in if copyLength > 0
         then foldl (mixStep startSample segmentData) outputData [0..<nat copyLength]
         else outputData)"

definition channel0 :: "AudioSegment \<Rightarrow> number list" where
  "channel0 segment = hd (ab_channelData (seg_audioBuffer segment))"

text \<open>The outer loop: every segment is mixed into the zero-filled output at
  \<open>floor (startTime * sampleRate)\<close>.\<close>

definition mixSegments :: "number \<Rightarrow> nat \<Rightarrow> AudioSegment list \<Rightarrow> number list" where
  "mixSegments sampleRate totalSamples segments =
     foldl (\<lambda>out segment. mixSegment out \<lfloor>seg_startTime segment * sampleRate\<rfloor> (channel0 segment))
           (replicate totalSamples 0) segments"


definition concatenateAudioSegments :: "AudioSegment list \<Rightarrow> number \<Rightarrow> error + ConcatenatedAudio" where
  "concatenateAudioSegments segments totalDuration =
     (case segments of
        [] \<Rightarrow> Inl (Error ''No audio segments to concatenate'')
      | first # _ \<Rightarrow>
          (let sampleRate = ab_sampleRate (seg_audioBuffer first);
               totalSamples = \<lfloor>totalDuration * sampleRate\<rfloor>
           in if totalSamples < 0 then Inl RangeError
              else if \<exists>segment \<in> set segments. ab_channelData (seg_audioBuffer segment) = []
              then Inl IndexSizeError
              else Inr \<lparr> ca_audioData = normalizeAudio (mixSegments sampleRate (nat totalSamples) segments),
                         ca_sampleRate = sampleRate,
                         ca_duration = totalDuration \<rparr>))"

text \<open>The media store's items. A file is known by its name; decoding it
  (\<open>decodeAudioData\<close>) is the argument \<open>decode\<close>, which gives the buffer or the message of
  the error thrown.\<close>

datatype MediaType = Audio | Video | Image

record MediaItem =
  m_id :: string
  m_type :: MediaType
  m_file :: "string option"

type_synonym decoder = "string \<Rightarrow> string + AudioBuffer"

definition effectiveDuration :: "TimelineElement \<Rightarrow> number" where
  "effectiveDuration element = e_duration element - e_trimStart element - e_trimEnd element"

text \<open>The first statement of \<open>extractAudioFromTrack\<close>: the media elements of the track
  whose media item exists and is audio or video, sorted by start time.\<close>

definition audioElementsOf ::
  "TimelineElement list \<Rightarrow> MediaItem list \<Rightarrow> (TimelineElement \<times> MediaItem) list" where
  "audioElementsOf elements mediaItems =
     sort_key (\<lambda>(element, mediaItem). e_startTime element)
       (concat (map (\<lambda>element.
                       case find (\<lambda>item. m_id item = e_mediaId element) mediaItems of
                         None \<Rightarrow> []
                       | Some mediaItem \<Rightarrow>
                           (if m_type mediaItem = Audio \<or> m_type mediaItem = Video
                            then [(element, mediaItem)] else []))
                    (filter (\<lambda>element. e_type element = MediaElement) elements)))"

text \<open>The body of the loop over the audio elements: the segment one element contributes,
  if any. No file, a failure to decode (caught and logged) and an effective duration that
  is not positive all contribute nothing.\<close>

definition segmentOf :: "decoder \<Rightarrow> TimelineElement \<times> MediaItem \<Rightarrow> AudioSegment list" where
  "segmentOf decode em =
     (case m_file (snd em) of
        None \<Rightarrow> []
      | Some file \<Rightarrow>
          (case decode file of
             Inl message \<Rightarrow> []
           | Inr audioBuffer \<Rightarrow>
               (let effective = effectiveDuration (fst em)
                in if effective > 0
                   then [\<lparr> seg_audioBuffer = trimAudioBuffer audioBuffer (e_trimStart (fst em)) effective,
                           seg_startTime = e_startTime (fst em),
                           seg_duration = effective \<rparr>]
                   else [])))"

definition extractAudioFromTrack ::
  "decoder \<Rightarrow> TimelineElement list \<Rightarrow> MediaItem list \<Rightarrow> error + ExtractedAudio" where
  "extractAudioFromTrack decode elements mediaItems =
     (let audioElements = audioElementsOf elements mediaItems
      in if length audioElements = 0 then Inl (Error ''No audio elements found in track'')
         else
           (let trackEndTime = mathMax (map (\<lambda>(element, mediaItem). e_startTime element
                                   + e_duration element - e_trimStart element - e_trimEnd element)
                                   audioElements);
                audioSegments = concat (map (segmentOf decode) audioElements)
            in if length audioSegments = 0 then Inl (Error ''No audio segments could be processed'')
               else (case concatenateAudioSegments audioSegments trackEndTime of
                       Inl e \<Rightarrow> Inl e
                     | Inr concatenatedAudio \<Rightarrow>
                         Inr \<lparr> ea_audioData = ca_audioData concatenatedAudio,
                               ea_sampleRate = ca_sampleRate concatenatedAudio,
                               ea_duration = ca_duration concatenatedAudio,
                               ea_timelineOffset = seg_startTime (hd audioSegments) \<rparr>)))"

text \<open>\<open>resampleAudio\<close>: linear interpolation; an output sample whose source index is past
  the end keeps the zero the new array was filled with.\<close>

definition resampleAudio :: "number list \<Rightarrow> number \<Rightarrow> number \<Rightarrow> number list" where
  "resampleAudio inputData inputSampleRate targetSampleRate =
     (if inputSampleRate = targetSampleRate then inputData
      else
        (let ratio = inputSampleRate / targetSampleRate;
             outputLength = nat \<lfloor>real (length inputData) / ratio\<rfloor>
         in map (\<lambda>i. let sourceIndex = real i * ratio;
                           index = nat \<lfloor>sourceIndex\<rfloor>;
                           fraction = sourceIndex - real index
                       in if index + 1 < length inputData
                          then inputData ! index * (1 - fraction) + inputData ! (index + 1) * fraction
                          else if index < length inputData then inputData ! index
                          else 0)
                [0..<outputLength]))"

text \<open>\<open>x || y\<close> on numbers: \<open>y\<close> when \<open>x\<close> is zero (or absent, which the model does not
  have).\<close>

definition orElse :: "number \<Rightarrow> number \<Rightarrow> number" where
  "orElse x y = (if x = 0 then y else x)"

text \<open>\<open>extractAudioFromElement\<close> of the store. The body of its \<open>try\<close> is
  \<open>extractBody\<close>, which gives the audio or the message of the error thrown; the
  \<open>catch\<close> rethrows every error with the prefix \<open>Failed to extract audio:\<close>. The
  message of the error that \<open>getChannelData\<close> throws for a buffer without channels is
  the browser's; its name stands for it here.\<close>

definition extractBody :: "AudioBuffer \<Rightarrow> TimelineElement \<Rightarrow> string + (number list \<times> number)" where
  "extractBody audioBuffer element =
     (let startSeconds = orElse (e_trimStart element) 0;
          durationSeconds = orElse (e_duration element) (ab_duration audioBuffer)
                              - orElse (e_trimStart element) 0 - orElse (e_trimEnd element) 0
      in if durationSeconds \<le> 0 then Inl ''Invalid audio duration after trimming''
         else
           (let sampleRate = ab_sampleRate audioBuffer;
                startSample = \<lfloor>startSeconds * sampleRate\<rfloor>;
                durationSamples = \<lfloor>durationSeconds * sampleRate\<rfloor>;
                actualStartSample = max 0 (min startSample (int (ab_length audioBuffer) - 1));
                actualDurationSamples = min durationSamples (int (ab_length audioBuffer) - actualStartSample)
            in if actualDurationSamples \<le> 0 then Inl ''No audio samples to extract - check trim values''
               else (case ab_channelData audioBuffer of
                       [] \<Rightarrow> Inl ''IndexSizeError''
                     | sourceData # _ \<Rightarrow>
                         (let extractedData = copySamples sourceData (nat actualStartSample) (nat actualDurationSamples);
                              targetSampleRate = 16000;
                              resampledData = (if sampleRate \<noteq> targetSampleRate
                                               then resampleAudio extractedData sampleRate targetSampleRate
                                               else extractedData)
                          in Inr (resampledData, targetSampleRate)))))"

definition extractAudioFromElement ::
  "decoder \<Rightarrow> TimelineElement \<Rightarrow> MediaItem option \<Rightarrow> error + (number list \<times> number)" where
  "extractAudioFromElement decode element mediaItem =
     (case (case mediaItem of None \<Rightarrow> None | Some item \<Rightarrow> m_file item) of
        None \<Rightarrow> Inl (Error ''No media file found for selected element'')
      | Some file \<Rightarrow>
          (case (case decode file of Inl message \<Rightarrow> Inl message
                                   | Inr audioBuffer \<Rightarrow> extractBody audioBuffer element) of
             Inl message \<Rightarrow> Inl (Error (''Failed to extract audio: '' @ message))
           | Inr audio \<Rightarrow> Inr audio))"

section \<open>The streaming callbacks of the speech-to-text worker (transcribe)\<close>

datatype Stage = Loading | Initializing | Downloading | Transcribing | Ready | Terminated | ErrorStage

text \<open>A chunk record of \<open>transcribe\<close>: its end timestamp is \<open>null\<close> until \<open>on_chunk_end\<close>.\<close>

record StreamChunk =
  sc_text :: string
  sc_timestamp :: "number \<times> number option"
  sc_finalised :: bool
  sc_offset :: number

text \<open>The local variables of \<open>transcribe\<close> that the streamer's callbacks share.\<close>

record TranscribeState =
  ts_chunks :: "StreamChunk list"
  ts_chunk_count :: nat
  ts_start_time :: "number option"
  ts_num_tokens :: nat
  ts_tps :: "number option"

text \<open>The \<open>data\<close> of an \<open>update\<close> message.\<close>

record UpdateData =
  ud_stage :: "Stage option"
  ud_progress :: number
  ud_file :: "string option"
  ud_chunks :: "StreamChunk list"
  ud_currentText :: "string option"
  ud_tps :: "number option"

definition initialTranscribeState :: TranscribeState where
  "initialTranscribeState =
     \<lparr> ts_chunks = [], ts_chunk_count = 0, ts_start_time = None, ts_num_tokens = 0,
       ts_tps = None \<rparr>"

definition chunk_length_s :: "bool \<Rightarrow> number" where
  "chunk_length_s isDistilWhisper = (if isDistilWhisper then 20 else 30)"

definition stride_length_s :: "bool \<Rightarrow> number" where
  "stride_length_s isDistilWhisper = (if isDistilWhisper then 3 else 5)"

definition on_chunk_start :: "bool \<Rightarrow> number \<Rightarrow> TranscribeState \<Rightarrow> TranscribeState" where
  "on_chunk_start isDistilWhisper x st =
     (let offset = (chunk_length_s isDistilWhisper - stride_length_s isDistilWhisper)
                     * real (ts_chunk_count st)
      in st\<lparr>ts_chunks := ts_chunks st @
               [\<lparr> sc_text = [], sc_timestamp = (offset + x, None), sc_finalised = False,
                   sc_offset = offset \<rparr>]\<rparr>)"

text \<open>\<open>now\<close> and \<open>later\<close> are what the two calls of \<open>performance.now()\<close> give.\<close>

definition token_callback_function :: "number \<Rightarrow> number \<Rightarrow> TranscribeState \<Rightarrow> TranscribeState" where
  "token_callback_function now later st =
     (let start_time = (case ts_start_time st of None \<Rightarrow> now | Some t \<Rightarrow> t);
          num_tokens = ts_num_tokens st + 1
      in st\<lparr>ts_start_time := Some start_time,
              ts_num_tokens := num_tokens,
              ts_tps := (if ts_num_tokens st > 0
                         then Some ((real num_tokens / (later - start_time)) * 1000)
                         else ts_tps st)\<rparr>)"

text \<open>\<open>callback_function\<close>: the new state and the message posted, if any.\<close>

definition callback_function :: "string \<Rightarrow> TranscribeState \<Rightarrow> TranscribeState \<times> UpdateData option" where
  "callback_function text st =
     (if length (ts_chunks st) = 0 then (st, None)
      else
        (let lastChunk = (last (ts_chunks st))\<lparr>sc_text := sc_text (last (ts_chunks st)) @ text\<rparr>;
             chunks = butlast (ts_chunks st) @ [lastChunk];
             estimatedProgress = min 95 ((ts_chunk_count st * 15) + (length chunks * 5))
         in (st\<lparr>ts_chunks := chunks\<rparr>,
             Some \<lparr> ud_stage = Some Transcribing,
                    ud_progress = real estimatedProgress,
                    ud_file = None,
                    ud_chunks = filter sc_finalised chunks,
                    ud_currentText = Some (sc_text lastChunk),
                    ud_tps = ts_tps st \<rparr>)))"

definition on_chunk_end :: "number \<Rightarrow> TranscribeState \<Rightarrow> TranscribeState" where
  "on_chunk_end x st =
     (if ts_chunks st = [] then st
      else
        (let current = last (ts_chunks st)
         in st\<lparr>ts_chunks := butlast (ts_chunks st) @
                  [current\<lparr>sc_timestamp := (fst (sc_timestamp current), Some (x + sc_offset current)),
                           sc_finalised := True\<rparr>]\<rparr>))"

definition on_finalize :: "TranscribeState \<Rightarrow> TranscribeState" where
  "on_finalize st = st\<lparr>ts_start_time := None, ts_num_tokens := 0, ts_chunk_count := ts_chunk_count st + 1\<rparr>"

text \<open>The number of finalised chunks, which the progress formula does not use.\<close>

definition finalizedChunkCount :: "TranscribeState \<Rightarrow> nat" where
  "finalizedChunkCount st = length (filter sc_finalised (ts_chunks st))"

section \<open>The speech-to-text store\<close>

record ProcessingStatus =
  ps_isProcessing :: bool
  ps_stage :: Stage
  ps_progress :: number
  ps_error :: "string option"

datatype Device = WebGPU | WASM

datatype Dtype = FP32 | FP16 | Q8 | Q4

record ModelConfig =
  mc_device :: Device
  mc_dtype :: Dtype
  mc_modelName :: string

record DeviceCapabilities =
  dc_hasWebGPU :: bool
  dc_hasWASM :: bool
  dc_recommendedBackend :: Device
  dc_warnings :: "string list"

text \<open>The state of the store. A worker and a promise are known by a number. The last two
  fields are not fields of the store: they are the variables \<open>workerReady\<close> and
  \<open>initializationAborted\<close> that the handlers of the current worker close over.\<close>

record SpeechToTextStore =
  st_worker :: "nat option"
  st_isWorkerInitialized :: bool
  st_initializationPromise :: "nat option"
  st_deviceCapabilities :: "DeviceCapabilities option"
  st_availableModels :: "(string \<times> string \<times> string) list"
  st_selectedModel :: string
  st_modelConfig :: "ModelConfig option"
  st_processingStatus :: ProcessingStatus
  st_results :: "TranscriptionResult list"
  st_workerReady :: bool
  st_initializationAborted :: bool

definition initialStore :: SpeechToTextStore where
  "initialStore =
     \<lparr> st_worker = None, st_isWorkerInitialized = False, st_initializationPromise = None,
       st_deviceCapabilities = None,
       st_availableModels =
         [(''Xenova/whisper-tiny.en'', ''39MB'', ''Fastest, English only''),
          (''Xenova/whisper-base.en'', ''74MB'', ''Good balance, English only''),
          (''Xenova/whisper-small.en'', ''244MB'', ''Better accuracy, English only'')],
       st_selectedModel = ''Xenova/whisper-tiny.en'',
       st_modelConfig = None,
       st_processingStatus =
         \<lparr> ps_isProcessing = False, ps_stage = Ready, ps_progress = 0, ps_error = None \<rparr>,
       st_results = [],
       st_workerReady = False, st_initializationAborted = False \<rparr>"

definition errorStatus :: "string \<Rightarrow> ProcessingStatus" where
  "errorStatus errorMsg =
     \<lparr> ps_isProcessing = False, ps_stage = ErrorStage, ps_progress = 0, ps_error = Some errorMsg \<rparr>"

definition terminateWorker :: "SpeechToTextStore \<Rightarrow> SpeechToTextStore" where
  "terminateWorker s =
     (if st_worker s \<noteq> None
      then s\<lparr>st_worker := None, st_isWorkerInitialized := False, st_initializationPromise := None,
             st_processingStatus :=
               \<lparr> ps_isProcessing = False, ps_stage = Terminated, ps_progress = 0, ps_error = None \<rparr>\<rparr>
      else s)"

text \<open>What a call does to the world outside the store.\<close>

datatype Effect = WorkerTerminated nat | WorkerCreated nat | TestMessagePosted nat

text \<open>A call of \<open>initializeWorker\<close>, up to the point where its asynchronous body first
  waits. \<open>created\<close> is the worker that \<open>new Worker\<close> gives, or the message of the error it
  throws; \<open>posted\<close> is \<open>None\<close> when the test \<open>postMessage\<close> goes through and the message
  of its error otherwise; \<open>initPromise\<close> is the promise of the body. The result is the
  promise returned, the effects and the new state. The promise that the early return
  gives settles as the stored one does.\<close>

definition initializeWorker ::
  "string + nat \<Rightarrow> string option \<Rightarrow> nat \<Rightarrow> SpeechToTextStore
     \<Rightarrow> nat \<times> Effect list \<times> SpeechToTextStore" where
  "initializeWorker created posted initPromise s =
     (case st_initializationPromise s of
        Some promise \<Rightarrow> (promise, [], s)
      | None \<Rightarrow>
          (let terminated = (case st_worker s of None \<Rightarrow> [] | Some w \<Rightarrow> [WorkerTerminated w]);
               s1 = (if st_worker s \<noteq> None then terminateWorker s else s)
           in case created of
                Inl errorMsg \<Rightarrow>
                  (initPromise, terminated,
                   s1\<lparr>st_worker := None, st_isWorkerInitialized := False,
                      st_processingStatus := errorStatus errorMsg,
                      st_initializationPromise := Some initPromise\<rparr>)
              | Inr w \<Rightarrow>
                  (let s2 = s1\<lparr>st_workerReady := False, st_initializationAborted := False\<rparr>;
                       s3 = (case posted of
                               None \<Rightarrow> s2
                             | Some errorMsg \<Rightarrow>
                                 s2\<lparr>st_initializationAborted := True,
                                    st_processingStatus :=
                                      errorStatus (''Failed to communicate with worker: '' @ errorMsg)\<rparr>)
                   in (initPromise,
                       terminated @ [WorkerCreated w]
                         @ (case posted of None \<Rightarrow> [TestMessagePosted w] | Some errorMsg \<Rightarrow> []),
                       s3\<lparr>st_worker := Some w, st_initializationPromise := Some initPromise\<rparr>))))"

text \<open>The messages of the worker and the \<open>onmessage\<close> handler. What
  \<open>getSelectedElementInfo\<close> returns when a \<open>complete\<close> message arrives is an argument:
  the track's identifier and the name built for the result, and so are the two random
  identifiers.\<close>

datatype WorkerMessage =
    Update UpdateData
  | Complete WhisperOutput
  | ErrorMessage "string option"

definition onmessage ::
  "WorkerMessage \<Rightarrow> (string \<times> string) option \<Rightarrow> string \<times> string
     \<Rightarrow> SpeechToTextStore \<Rightarrow> SpeechToTextStore" where
  "onmessage message elementInfo uuids s =
     (if st_initializationAborted s then s
      else
        (case message of
           Update updateData \<Rightarrow>
             (let s1 = s\<lparr>st_processingStatus :=
                           \<lparr> ps_isProcessing = True,
                             ps_stage = (case ud_stage updateData of None \<Rightarrow> Initializing | Some st \<Rightarrow> st),
                             ps_progress = ud_progress updateData,
                             ps_error = None \<rparr>\<rparr>
              in if \<not> st_workerReady s \<and> (ud_stage updateData = Some Ready \<or> ud_progress updateData > 0)
                 then s1\<lparr>st_workerReady := True\<rparr> else s1)
         | Complete result \<Rightarrow>
             (case elementInfo of
                None \<Rightarrow> s
              | Some (trackId, trackName) \<Rightarrow>
                  s\<lparr>st_results := st_results s @
                                     [completedResult (fst uuids) (snd uuids) trackId trackName result],
                    st_processingStatus :=
                      \<lparr> ps_isProcessing = False, ps_stage = Ready, ps_progress = 100, ps_error = None \<rparr>\<rparr>)
         | ErrorMessage msg \<Rightarrow>
             s\<lparr>st_processingStatus :=
                 errorStatus (case msg of None \<Rightarrow> ''Transcription error''
                              | Some m \<Rightarrow> if m = [] then ''Transcription error'' else m)\<rparr>))"

text \<open>\<open>worker.onerror\<close> and the \<open>error\<close> listener: \<open>errorMsg\<close> is the message built from
  the event.\<close>

definition onerror :: "string \<Rightarrow> SpeechToTextStore \<Rightarrow> SpeechToTextStore" where
  "onerror errorMsg s =
     (if st_initializationAborted s then s
      else s\<lparr>st_initializationAborted := True, st_processingStatus := errorStatus errorMsg\<rparr>)"

text \<open>The rest of the body of \<open>initializeWorker\<close>, after the wait: the worker became ready
  and a backend was found, or the \<open>catch\<close> block ran.\<close>

definition initializationSucceeded :: "Device \<times> Dtype \<Rightarrow> string \<Rightarrow> SpeechToTextStore \<Rightarrow> SpeechToTextStore" where
  "initializationSucceeded backendConfig modelName s =
     s\<lparr>st_isWorkerInitialized := True,
       st_modelConfig := Some \<lparr> mc_device = fst backendConfig, mc_dtype = snd backendConfig,
                                mc_modelName = modelName \<rparr>,
       st_processingStatus :=
         \<lparr> ps_isProcessing = False, ps_stage = Ready, ps_progress = 100, ps_error = None \<rparr>,
       st_initializationPromise := None\<rparr>"

definition initializationFailed :: "string \<Rightarrow> SpeechToTextStore \<Rightarrow> SpeechToTextStore" where
  "initializationFailed errorMsg s =
     s\<lparr>st_worker := None, st_isWorkerInitialized := False, st_initializationPromise := None,
       st_processingStatus := errorStatus errorMsg\<rparr>"

definition setSelectedModel ::
  "string \<Rightarrow> string + nat \<Rightarrow> string option \<Rightarrow> nat \<Rightarrow> SpeechToTextStore
     \<Rightarrow> SpeechToTextStore" where
  "setSelectedModel modelName created posted initPromise s =
     (let s1 = s\<lparr>st_selectedModel := modelName\<rparr>
      in if st_isWorkerInitialized s1
         then snd (snd (initializeWorker created posted initPromise s1)) else s1)"

text \<open>\<open>processSelectedElement\<close> sets the status twice: when its \<open>try\<close> block starts and
  when its \<open>catch\<close> block runs.\<close>

definition processStarted :: "SpeechToTextStore \<Rightarrow> SpeechToTextStore" where
  "processStarted s =
     s\<lparr>st_processingStatus :=
         \<lparr> ps_isProcessing = True, ps_stage = Loading, ps_progress = 0, ps_error = None \<rparr>\<rparr>"

definition processFailed :: "string \<Rightarrow> SpeechToTextStore \<Rightarrow> SpeechToTextStore" where
  "processFailed errorMsg s = s\<lparr>st_processingStatus := errorStatus errorMsg\<rparr>"

definition clearResults :: "SpeechToTextStore \<Rightarrow> SpeechToTextStore" where
  "clearResults s = s\<lparr>st_results := []\<rparr>"

definition resetState :: "SpeechToTextStore \<Rightarrow> SpeechToTextStore" where
  "resetState s =
     (let s1 = (if st_worker s \<noteq> None then terminateWorker s else s)
      in s1\<lparr>st_worker := None, st_isWorkerInitialized := False, st_initializationPromise := None,
            st_modelConfig := None,
            st_processingStatus :=
              \<lparr> ps_isProcessing = False, ps_stage = Ready, ps_progress = 0, ps_error = None \<rparr>,
            st_results := []\<rparr>)"

definition removeResult :: "string \<Rightarrow> SpeechToTextStore \<Rightarrow> SpeechToTextStore" where
  "removeResult resultId s = s\<lparr>st_results := filter (\<lambda>result. r_id result \<noteq> resultId) (st_results s)\<rparr>"

definition loadDeviceCapabilities :: "DeviceCapabilities \<Rightarrow> SpeechToTextStore \<Rightarrow> SpeechToTextStore" where
  "loadDeviceCapabilities capabilities s = s\<lparr>st_deviceCapabilities := Some capabilities\<rparr>"

definition insertResult ::
  "TimelineElement option \<Rightarrow> string \<Rightarrow> InsertMode \<Rightarrow> SpeechToTextStore \<Rightarrow> SpeechToTextStore" where
  "insertResult elementInfo resultId mode s =
     (case insertResultToTimeline (st_results s) elementInfo resultId mode of
        None \<Rightarrow> s
      | Some (resolvedElements, results') \<Rightarrow> s\<lparr>st_results := results'\<rparr>)"

text \<open>The \<open>update\<close> messages that the worker posts carry the stage \<open>ready\<close> (the reply to
  the test message), \<open>downloading\<close> or \<open>loading\<close> (forwarded from the model loader) or
  \<open>transcribing\<close> (from \<open>callback_function\<close>).\<close>

fun workerSends :: "WorkerMessage \<Rightarrow> bool" where
  "workerSends (Update updateData) =
     (ud_stage updateData = Some Ready \<or> ud_stage updateData = Some Downloading
      \<or> ud_stage updateData = Some Loading \<or> ud_stage updateData = Some Transcribing)"
| "workerSends (Complete result) = True"
| "workerSends (ErrorMessage msg) = True"

text \<open>The states of the store: every one of its actions and handlers may run at any time,
  with any arguments; a message of the worker is one that the worker sends.\<close>

inductive reachable :: "SpeechToTextStore \<Rightarrow> bool" where
  initial: "reachable initialStore"
| initialize: "reachable s \<Longrightarrow> reachable (snd (snd (initializeWorker created posted initPromise s)))"
| message: "reachable s \<Longrightarrow> workerSends message \<Longrightarrow> reachable (onmessage message elementInfo uuids s)"
| worker_error: "reachable s \<Longrightarrow> reachable (onerror errorMsg s)"
| succeeded: "reachable s \<Longrightarrow> reachable (initializationSucceeded backendConfig modelName s)"
| failed: "reachable s \<Longrightarrow> reachable (initializationFailed errorMsg s)"
| terminate: "reachable s \<Longrightarrow> reachable (terminateWorker s)"
| select_model: "reachable s \<Longrightarrow> reachable (setSelectedModel modelName created posted initPromise s)"
| process_started: "reachable s \<Longrightarrow> reachable (processStarted s)"
| process_failed: "reachable s \<Longrightarrow> reachable (processFailed errorMsg s)"
| clear: "reachable s \<Longrightarrow> reachable (clearResults s)"
| reset: "reachable s \<Longrightarrow> reachable (resetState s)"
| remove: "reachable s \<Longrightarrow> reachable (removeResult resultId s)"
| capabilities: "reachable s \<Longrightarrow> reachable (loadDeviceCapabilities caps s)"
| insert: "reachable s \<Longrightarrow> reachable (insertResult elementInfo resultId mode s)"

text \<open>The invariant of the store: the stage \<open>error\<close> never comes with \<open>isProcessing\<close>.\<close>

definition statusOk :: "SpeechToTextStore \<Rightarrow> bool" where
  "statusOk s = (ps_stage (st_processingStatus s) = ErrorStage
                   \<longrightarrow> \<not> ps_isProcessing (st_processingStatus s))"

section \<open>Example inputs\<close>

text \<open>The end-to-end scenario of the specification: the chunks \<open>[0, 2]\<close> and
  \<open>[2.5, 4]\<close> seconds, with no word timestamps.\<close>

definition exampleOutput :: WhisperOutput where
  "exampleOutput =
     \<lparr> wo_text = ''hello world goodbye'',
       wo_chunks = Some [\<lparr> rc_timestamp = (0, 2), rc_text = ''hello world'', rc_words = None \<rparr>,
                         \<lparr> rc_timestamp = (2.5, 4), rc_text = ''goodbye'', rc_words = None \<rparr>],
       wo_words = None \<rparr>"

text \<open>The overlap scenario of the specification: the chunks \<open>[0, 3]\<close> and \<open>[2, 5]\<close>
  seconds.\<close>

definition overlapOutput :: WhisperOutput where
  "overlapOutput =
     \<lparr> wo_text = ''one two'',
       wo_chunks = Some [\<lparr> rc_timestamp = (0, 3), rc_text = ''one'', rc_words = None \<rparr>,
                         \<lparr> rc_timestamp = (2, 5), rc_text = ''two'', rc_words = None \<rparr>],
       wo_words = None \<rparr>"

text \<open>Two chunks that start at the same time.\<close>

definition sameStartOutput :: WhisperOutput where
  "sameStartOutput =
     \<lparr> wo_text = ''one two'',
       wo_chunks = Some [\<lparr> rc_timestamp = (1, 3), rc_text = ''one'', rc_words = None \<rparr>,
                         \<lparr> rc_timestamp = (1, 2), rc_text = ''two'', rc_words = None \<rparr>],
       wo_words = None \<rparr>"

text \<open>Two chunks that start at \<open>0.03\<close> and \<open>0.29\<close> seconds and overlap: the doubles
  that these decimal literals denote.\<close>

definition roundingOutput :: WhisperOutput where
  "roundingOutput =
     \<lparr> wo_text = ''one two'',
       wo_chunks = Some [\<lparr> rc_timestamp = (roundToDouble 0.03, 2), rc_text = ''one'', rc_words = None \<rparr>,
                         \<lparr> rc_timestamp = (roundToDouble 0.29, 3), rc_text = ''two'', rc_words = None \<rparr>],
       wo_words = None \<rparr>"

text \<open>One chunk of one second with fifteen words.\<close>

definition fifteenWordsOutput :: WhisperOutput where
  "fifteenWordsOutput =
     \<lparr> wo_text = ''a b c d e f g h i j k l m n o'',
       wo_chunks = Some [\<lparr> rc_timestamp = (0, 1), rc_text = ''a b c d e f g h i j k l m n o'',
                            rc_words = None \<rparr>],
       wo_words = None \<rparr>"

text \<open>One chunk that starts at \<open>1.001\<close> seconds, the double that this literal denotes.\<close>

definition fractionOutput :: WhisperOutput where
  "fractionOutput =
     \<lparr> wo_text = ''hi'',
       wo_chunks = Some [\<lparr> rc_timestamp = (roundToDouble 1.001, 2), rc_text = ''hi'', rc_words = None \<rparr>],
       wo_words = None \<rparr>"

text \<open>The result that the \<open>complete\<close> message stores for an output, and a selected element
  that starts at \<open>start\<close>.\<close>

definition exampleResult :: "WhisperOutput \<Rightarrow> TranscriptionResult" where
  "exampleResult output = completedResult ''r1'' ''t1'' ''track1'' ''Track 1 - Element'' output"

definition exampleElement :: "number \<Rightarrow> TimelineElement" where
  "exampleElement start =
     \<lparr> e_id = ''e1'', e_type = MediaElement, e_mediaId = ''m1'', e_startTime = start,
       e_duration = 5, e_trimStart = 0, e_trimEnd = 0 \<rparr>"

definition exampleTranscript :: Transcript where
  "exampleTranscript = createTranscriptFromWhisperOutput ''t1'' exampleOutput"

text \<open>What \<open>toString\<close> prints for the fraction \<open>1 - 2^-43\<close>, the only number the
  examples print that is not a whole number.\<close>

definition printFraction :: "number \<Rightarrow> string" where
  "printFraction x = ''0.9999999999998863''"

text \<open>A buffer with one channel; two segments that overlap in the second of three samples,
  once with a peak above 1 and once below.\<close>

definition monoBuffer :: "number \<Rightarrow> number list \<Rightarrow> AudioBuffer" where
  "monoBuffer sampleRate samples =
     \<lparr> ab_sampleRate = sampleRate, ab_length = length samples, ab_channelData = [samples] \<rparr>"



text \<open>An element whose trim leaves nothing, its media item and a decoder that gives two
  samples.\<close>

definition trimmedOutElement :: TimelineElement where
  "trimmedOutElement =
     \<lparr> e_id = ''e2'', e_type = MediaElement, e_mediaId = ''m1'', e_startTime = 0,
       e_duration = 1, e_trimStart = 1, e_trimEnd = 0 \<rparr>"

definition exampleItem :: MediaItem where
  "exampleItem = \<lparr> m_id = ''m1'', m_type = Audio, m_file = Some ''clip.wav'' \<rparr>"

definition exampleDecode :: decoder where
  "exampleDecode file = Inr (monoBuffer 2 [0.5, 0.25])"

text \<open>The state of \<open>transcribe\<close> after the first window has opened its chunk.\<close>

definition firstChunkState :: TranscribeState where
  "firstChunkState = on_chunk_start False 0 initialTranscribeState"

text \<open>The store while its first initialization is in flight, and after the worker has
  then reported an error.\<close>

definition inFlightStore :: SpeechToTextStore where
  "inFlightStore = snd (snd (initializeWorker (Inr 1) None 7 initialStore))"

definition failedStore :: SpeechToTextStore where
  "failedStore = onmessage (ErrorMessage (Some ''boom'')) None ('''', '''') inFlightStore"

section \<open>Rounding to a double\<close>

subsection \<open>The nearest integer\<close>

lemma roundHalfEven_of_int: "roundHalfEven (of_int k) = k"
  by (simp add: roundHalfEven_def)

lemma roundHalfEven_bounds: "\<lfloor>q\<rfloor> \<le> roundHalfEven q \<and> roundHalfEven q \<le> \<lfloor>q\<rfloor> + 1"
  by (simp add: roundHalfEven_def Let_def)

lemma roundHalfEven_error: "\<bar>of_int (roundHalfEven q) - q\<bar> \<le> 1/2"
proof -
  have "of_int \<lfloor>q\<rfloor> \<le> q" "q < of_int \<lfloor>q\<rfloor> + 1" by linarith+
  then show ?thesis
    by (auto simp: roundHalfEven_def Let_def abs_le_iff)
qed

lemma roundHalfEven_mono:
  assumes "q \<le> q'"
  shows "roundHalfEven q \<le> roundHalfEven q'"
proof (cases "\<lfloor>q\<rfloor> = \<lfloor>q'\<rfloor>")
  case True
  then show ?thesis using assms by (auto simp: roundHalfEven_def Let_def)
next
  case False
  then have "\<lfloor>q\<rfloor> + 1 \<le> \<lfloor>q'\<rfloor>" using floor_mono [OF assms] by linarith
  then show ?thesis
    using roundHalfEven_bounds [of q] roundHalfEven_bounds [of q'] by linarith
qed

lemma roundHalfEven_minus: "roundHalfEven (- q) = - roundHalfEven q"
proof (cases "q = of_int \<lfloor>q\<rfloor>")
  case True
  then obtain k where k: "q = of_int k" ..
  have "roundHalfEven (- q) = roundHalfEven (of_int (- k))" by (simp add: k)
  then show ?thesis by (simp only: roundHalfEven_of_int k)
next
  case False
  then have lt: "of_int \<lfloor>q\<rfloor> < q" "q < of_int \<lfloor>q\<rfloor> + 1" by linarith+
  then have fl: "\<lfloor>- q\<rfloor> = - \<lfloor>q\<rfloor> - 1" by linarith
  show ?thesis
    using lt by (auto simp: roundHalfEven_def Let_def fl)
qed


subsection \<open>The spacing of the doubles\<close>

lemma powr_powi: "(2::real) powr real_of_int k = 2 powi k"
  by (rule powr_real_of_int') simp_all

lemma binade:
  assumes "x \<noteq> 0"
  shows "2 powi \<lfloor>log 2 \<bar>x\<bar>\<rfloor> \<le> \<bar>x\<bar> \<and> \<bar>x\<bar> < 2 powi (\<lfloor>log 2 \<bar>x\<bar>\<rfloor> + 1)"
proof -
  have "0 < \<bar>x\<bar>" using assms by simp
  from floor_log_eq_powr_iff [OF this, of 2 "\<lfloor>log 2 \<bar>x\<bar>\<rfloor>"]
  have "2 powr real_of_int \<lfloor>log 2 \<bar>x\<bar>\<rfloor> \<le> \<bar>x\<bar>
        \<and> \<bar>x\<bar> < 2 powr real_of_int (\<lfloor>log 2 \<bar>x\<bar>\<rfloor> + 1)" by simp
  then show ?thesis unfolding powr_powi .
qed

lemma binade_unique:
  assumes "2 powi e \<le> \<bar>x\<bar>" and "\<bar>x\<bar> < 2 powi (e + 1)"
  shows "\<lfloor>log 2 \<bar>x\<bar>\<rfloor> = e"
proof -
  have "(0::real) < 2 powi e" by (rule zero_less_power_int) simp
  then have pos: "0 < \<bar>x\<bar>" using assms(1) by linarith
  have "2 powr real_of_int e \<le> \<bar>x\<bar> \<and> \<bar>x\<bar> < 2 powr real_of_int (e + 1)"
    unfolding powr_powi using assms by (rule conjI)
  then show ?thesis using floor_log_eq_powr_iff [OF pos, of 2 e] by simp
qed

lemma ulp_pos: "0 < ulp x"
  by (simp add: ulp_def zero_less_power_int)

lemma ulp_minus: "ulp (- x) = ulp x"
  by (simp add: ulp_def)

lemma ulp_eq:
  assumes "2 powi e \<le> \<bar>x\<bar>" and "\<bar>x\<bar> < 2 powi (e + 1)"
  shows "ulp x = 2 powi (e - 52)"
  by (simp add: ulp_def binade_unique [OF assms])

lemma ulp_scale: "2 ^ 52 * ulp x = 2 powi \<lfloor>log 2 \<bar>x\<bar>\<rfloor>" "2 ^ 53 * ulp x = 2 powi (\<lfloor>log 2 \<bar>x\<bar>\<rfloor> + 1)"
proof -
  have a: "(2::real) powi (k - 52) = 2 powi k / 2 ^ 52" for k :: int
    by (simp add: power_int_diff)
  show "2 ^ 52 * ulp x = 2 powi \<lfloor>log 2 \<bar>x\<bar>\<rfloor>" by (simp add: ulp_def a)
  show "2 ^ 53 * ulp x = 2 powi (\<lfloor>log 2 \<bar>x\<bar>\<rfloor> + 1)" by (simp add: ulp_def a power_int_add)
qed

lemma ulp_bounds:
  assumes "x \<noteq> 0"
  shows "2 ^ 52 * ulp x \<le> \<bar>x\<bar>" and "\<bar>x\<bar> < 2 ^ 53 * ulp x"
  using binade [OF assms] by (simp_all only: ulp_scale)

lemma quotient_bounds:
  assumes "0 < x"
  shows "2 ^ 52 \<le> x / ulp x" and "x / ulp x < 2 ^ 53"
proof -
  have x: "x \<noteq> 0" "\<bar>x\<bar> = x" using assms by simp_all
  show "2 ^ 52 \<le> x / ulp x"
    using ulp_bounds(1) [OF x(1)] ulp_pos [of x] by (simp add: x(2) pos_le_divide_eq)
  show "x / ulp x < 2 ^ 53"
    using ulp_bounds(2) [OF x(1)] ulp_pos [of x] by (simp add: x(2) pos_divide_less_eq)
qed

subsection \<open>Rounding\<close>

lemma roundToDouble_zero: "roundToDouble 0 = 0"
  by (simp add: roundToDouble_def)

lemma roundToDouble_minus: "roundToDouble (- x) = - roundToDouble x"
  by (simp add: roundToDouble_def ulp_minus roundHalfEven_minus)

lemma roundToDouble_eval:
  assumes "2 powi e \<le> \<bar>x\<bar>" and "\<bar>x\<bar> < 2 powi (e + 1)"
  shows "roundToDouble x = of_int (roundHalfEven (x / 2 powi (e - 52))) * 2 powi (e - 52)"
proof -
  have "(0::real) < 2 powi e" by (rule zero_less_power_int) simp
  then have "0 < \<bar>x\<bar>" using assms(1) by linarith
  then have "x \<noteq> 0" by simp
  then show ?thesis by (simp add: roundToDouble_def ulp_eq [OF assms])
qed

lemma significand_bounds:
  assumes "0 < x"
  shows "2 ^ 52 \<le> roundHalfEven (x / ulp x)" and "roundHalfEven (x / ulp x) \<le> 2 ^ 53"
proof -
  have "roundHalfEven (of_int (2 ^ 52)) \<le> roundHalfEven (x / ulp x)"
    by (rule roundHalfEven_mono) (use quotient_bounds(1) [OF assms] in simp)
  then show "2 ^ 52 \<le> roundHalfEven (x / ulp x)" by (simp only: roundHalfEven_of_int)
  have "roundHalfEven (x / ulp x) \<le> roundHalfEven (of_int (2 ^ 53))"
    by (rule roundHalfEven_mono) (use quotient_bounds(2) [OF assms] in simp)
  then show "roundHalfEven (x / ulp x) \<le> 2 ^ 53" by (simp only: roundHalfEven_of_int)
qed

lemma roundToDouble_binade:
  assumes "0 < x"
  shows "2 powi \<lfloor>log 2 \<bar>x\<bar>\<rfloor> \<le> roundToDouble x" and "roundToDouble x \<le> 2 powi (\<lfloor>log 2 \<bar>x\<bar>\<rfloor> + 1)"
proof -
  have r: "roundToDouble x = of_int (roundHalfEven (x / ulp x)) * ulp x"
    using assms by (simp add: roundToDouble_def)
  have "real_of_int (2 ^ 52) \<le> of_int (roundHalfEven (x / ulp x))"
    using significand_bounds(1) [OF assms] by (simp only: of_int_le_iff)
  then have "2 ^ 52 * ulp x \<le> of_int (roundHalfEven (x / ulp x)) * ulp x"
    using ulp_pos [of x] by (intro mult_right_mono) simp_all
  then show "2 powi \<lfloor>log 2 \<bar>x\<bar>\<rfloor> \<le> roundToDouble x" by (simp only: r ulp_scale)
  have "real_of_int (roundHalfEven (x / ulp x)) \<le> of_int (2 ^ 53)"
    using significand_bounds(2) [OF assms] by (simp only: of_int_le_iff)
  then have "of_int (roundHalfEven (x / ulp x)) * ulp x \<le> 2 ^ 53 * ulp x"
    using ulp_pos [of x] by (intro mult_right_mono) simp_all
  then show "roundToDouble x \<le> 2 powi (\<lfloor>log 2 \<bar>x\<bar>\<rfloor> + 1)" by (simp only: r ulp_scale)
qed

lemma roundToDouble_pos: "0 < x \<Longrightarrow> 0 < roundToDouble x"
  using roundToDouble_binade(1) [of x] zero_less_power_int [of "2::real" "\<lfloor>log 2 \<bar>x\<bar>\<rfloor>"] by linarith

lemma roundToDouble_neg: "x < 0 \<Longrightarrow> roundToDouble x < 0"
  using roundToDouble_pos [of "- x"] by (simp add: roundToDouble_minus)

lemma roundToDouble_mono_pos:
  assumes "0 < x" and "x \<le> y"
  shows "roundToDouble x \<le> roundToDouble y"
proof -
  have y: "0 < y" using assms by linarith
  have le: "\<lfloor>log 2 \<bar>x\<bar>\<rfloor> \<le> \<lfloor>log 2 \<bar>y\<bar>\<rfloor>"
    using assms y by (intro floor_mono) simp
  show ?thesis
  proof (cases "\<lfloor>log 2 \<bar>x\<bar>\<rfloor> = \<lfloor>log 2 \<bar>y\<bar>\<rfloor>")
    case True
    then have u: "ulp x = ulp y" by (simp add: ulp_def)
    have "x / ulp y \<le> y / ulp y"
      using assms(2) ulp_pos [of y] by (simp add: divide_right_mono)
    then have "roundHalfEven (x / ulp y) \<le> roundHalfEven (y / ulp y)"
      by (rule roundHalfEven_mono)
    then have "of_int (roundHalfEven (x / ulp y)) * ulp y \<le> of_int (roundHalfEven (y / ulp y)) * ulp y"
      using ulp_pos [of y] by (intro mult_right_mono) simp_all
    then show ?thesis using assms(1) y by (simp add: roundToDouble_def u)
  next
    case False
    then have "\<lfloor>log 2 \<bar>x\<bar>\<rfloor> + 1 \<le> \<lfloor>log 2 \<bar>y\<bar>\<rfloor>" using le by linarith
    then have "(2::real) powi (\<lfloor>log 2 \<bar>x\<bar>\<rfloor> + 1) \<le> 2 powi \<lfloor>log 2 \<bar>y\<bar>\<rfloor>"
      by (intro power_int_increasing) simp_all
    then show ?thesis
      using roundToDouble_binade(2) [OF assms(1)] roundToDouble_binade(1) [OF y] by linarith
  qed
qed

lemma roundToDouble_mono:
  assumes "x \<le> y"
  shows "roundToDouble x \<le> roundToDouble y"
proof -
  consider "0 < x" | "y < 0" | "x \<le> 0" "0 \<le> y" by linarith
  then show ?thesis
  proof cases
    case 1
    then show ?thesis using assms by (rule roundToDouble_mono_pos)
  next
    case 2
    then have "roundToDouble (- y) \<le> roundToDouble (- x)"
      using assms by (intro roundToDouble_mono_pos) simp_all
    then show ?thesis by (simp add: roundToDouble_minus)
  next
    case 3
    have "roundToDouble x \<le> 0"
      using 3(1) roundToDouble_neg [of x] by (cases "x = 0") (simp_all add: roundToDouble_zero)
    moreover have "0 \<le> roundToDouble y"
      using 3(2) roundToDouble_pos [of y] by (cases "y = 0") (simp_all add: roundToDouble_zero)
    ultimately show ?thesis by linarith
  qed
qed

lemma roundToDouble_error_ulp: "\<bar>roundToDouble x - x\<bar> \<le> ulp x / 2"
proof (cases "x = 0")
  case True
  then show ?thesis using ulp_pos [of x] by (simp add: roundToDouble_zero)
next
  case False
  have "\<bar>roundToDouble x - x\<bar> = \<bar>of_int (roundHalfEven (x / ulp x)) - x / ulp x\<bar> * ulp x"
  proof -
    have "roundToDouble x - x = (of_int (roundHalfEven (x / ulp x)) - x / ulp x) * ulp x"
      using False ulp_pos [of x] by (simp add: roundToDouble_def left_diff_distrib)
    then show ?thesis using ulp_pos [of x] by (simp add: abs_mult)
  qed
  also have "\<dots> \<le> 1/2 * ulp x"
    using roundHalfEven_error [of "x / ulp x"] ulp_pos [of x] by (intro mult_right_mono) simp_all
  finally show ?thesis by simp
qed

lemma roundToDouble_error: "\<bar>roundToDouble x - x\<bar> \<le> \<bar>x\<bar> / 2 ^ 53"
proof (cases "x = 0")
  case True
  then show ?thesis by (simp add: roundToDouble_zero)
next
  case False
  have "ulp x / 2 \<le> \<bar>x\<bar> / 2 ^ 53"
    using ulp_bounds(1) [OF False] by simp
  then show ?thesis using roundToDouble_error_ulp [of x] by linarith
qed


subsection \<open>The doubles\<close>

lemma roundToDouble_integral:
  assumes "x \<noteq> 0" and "x / ulp x = of_int m"
  shows "roundToDouble x = x"
proof -
  have "roundToDouble x = of_int m * ulp x"
    using assms(1) by (simp add: roundToDouble_def assms(2) roundHalfEven_of_int)
  also have "\<dots> = x / ulp x * ulp x" by (simp only: assms(2))
  also have "\<dots> = x" using ulp_pos [of x] by simp
  finally show ?thesis .
qed

lemma roundToDouble_dyadic:
  assumes "\<bar>k\<bar> \<le> 2 ^ 53"
  shows "roundToDouble (of_int k * 2 powi j) = of_int k * 2 powi j"
proof (cases "k = 0")
  case True
  then show ?thesis by (simp add: roundToDouble_zero)
next
  case False
  define x where "x = real_of_int k * 2 powi j"
  define e where "e = \<lfloor>log 2 \<bar>x\<bar>\<rfloor>"
  have pj: "(0::real) < 2 powi j" by (rule zero_less_power_int) simp
  have x0: "x \<noteq> 0" using False pj by (simp add: x_def)
  have b: "2 powi e \<le> \<bar>x\<bar>" "\<bar>x\<bar> < 2 powi (e + 1)"
    using binade [OF x0] by (simp_all add: e_def)
  have ax: "\<bar>x\<bar> = of_int \<bar>k\<bar> * 2 powi j"
    using pj by (simp add: x_def abs_mult)
  have u: "ulp x = 2 powi (e - 52)" by (simp add: ulp_def e_def)
  have q: "x / ulp x = of_int k * 2 powi (j - e + 52)"
  proof -
    have "(2::real) powi (j - e + 52) = 2 powi j / 2 powi (e - 52)"
      using power_int_diff [of "2::real" j "e - 52"] by (simp add: algebra_simps)
    moreover have "x / ulp x = of_int k * (2 powi j / 2 powi (e - 52))"
      unfolding u by (simp add: x_def)
    ultimately show ?thesis by simp
  qed
  have "\<exists>m. x / ulp x = of_int m"
  proof (cases "0 \<le> j - e + 52")
    case True
    then have "(2::real) powi (j - e + 52) = of_int (2 ^ nat (j - e + 52))"
      by (simp add: power_int_def)
    then have "x / ulp x = of_int (k * 2 ^ nat (j - e + 52))" by (simp add: q)
    then show ?thesis ..
  next
    case neg: False
    then have je: "j + 53 \<le> e" by linarith
    have "real_of_int \<bar>k\<bar> \<le> of_int (2 ^ 53)" using assms by (simp only: of_int_le_iff)
    then have "\<bar>x\<bar> \<le> 2 ^ 53 * 2 powi j"
      unfolding ax using pj by (intro mult_right_mono) simp_all
    also have "\<dots> = 2 powi (j + 53)" by (simp add: power_int_add)
    finally have up: "\<bar>x\<bar> \<le> 2 powi (j + 53)" .
    have eq: "e = j + 53"
    proof (rule ccontr)
      assume "e \<noteq> j + 53"
      then have "j + 53 < e" using je by linarith
      then have "(2::real) powi (j + 53) < 2 powi e" by (intro power_int_strict_increasing) simp_all
      then show False using up b(1) by linarith
    qed
    have "\<bar>x\<bar> = 2 powi (j + 53)" using up b(1) by (simp add: eq)
    then have "of_int \<bar>k\<bar> * 2 powi j = (2 ^ 53 :: real) * 2 powi j"
      by (simp add: ax power_int_add)
    then have "real_of_int \<bar>k\<bar> = of_int (2 ^ 53)" using pj by simp
    then have k: "\<bar>k\<bar> = 2 ^ 53" by (simp only: of_int_eq_iff)
    have "(2::real) powi (j - e + 52) = 1 / 2" by (simp add: eq)
    then have h: "x / ulp x = of_int k / 2" by (simp add: q)
    have "k = 2 ^ 53 \<or> k = - (2 ^ 53)" using k by linarith
    then have "real_of_int k / 2 = of_int (k div 2)" by auto
    then show ?thesis using h by auto
  qed
  then obtain m where "x / ulp x = of_int m" ..
  then have "roundToDouble x = x" by (rule roundToDouble_integral [OF x0])
  then show ?thesis by (simp only: x_def)
qed

lemma roundToDouble_idem: "roundToDouble (roundToDouble x) = roundToDouble x"
proof -
  have pos: "roundToDouble (roundToDouble x) = roundToDouble x" if "0 < x" for x
  proof -
    have "\<bar>roundHalfEven (x / ulp x)\<bar> \<le> 2 ^ 53"
      using significand_bounds [OF that] by simp
    then show ?thesis
      using that roundToDouble_dyadic [of "roundHalfEven (x / ulp x)" "\<lfloor>log 2 \<bar>x\<bar>\<rfloor> - 52"]
      by (simp add: roundToDouble_def ulp_def)
  qed
  consider "0 < x" | "x = 0" | "x < 0" by linarith
  then show ?thesis
  proof cases
    case 1 then show ?thesis by (rule pos)
  next
    case 2 then show ?thesis by (simp add: roundToDouble_zero)
  next
    case 3
    then have "roundToDouble (roundToDouble (- x)) = roundToDouble (- x)" by (intro pos) simp
    then show ?thesis by (simp add: roundToDouble_minus)
  qed
qed

lemma isDouble_roundToDouble: "isDouble (roundToDouble x)"
  by (simp add: isDouble_def roundToDouble_idem)

lemma isDouble_of_int: "\<bar>k\<bar> \<le> 2 ^ 53 \<Longrightarrow> isDouble (of_int k)"
  using roundToDouble_dyadic [of k 0] by (simp add: isDouble_def)

lemma isDouble_dyadic: "\<bar>k\<bar> \<le> 2 ^ 53 \<Longrightarrow> isDouble (of_int k / 2 ^ n)"
  using roundToDouble_dyadic [of k "- int n"] by (simp add: isDouble_def power_int_minus field_simps)

lemma isDouble_numeral: "numeral n \<le> (2 ^ 53 :: int) \<Longrightarrow> isDouble (numeral n)"
  using isDouble_of_int [of "numeral n"] by simp

lemma isDouble_0: "isDouble 0" and isDouble_1: "isDouble 1"
  using isDouble_of_int [of 0] isDouble_of_int [of 1] by simp_all

lemma isDouble_half: "numeral n \<le> (2 ^ 53 :: int) \<Longrightarrow> isDouble (numeral n / 2)"
  using isDouble_dyadic [of "numeral n" 1] by simp

lemma isDouble_minus: "isDouble x \<Longrightarrow> isDouble (- x)"
  by (simp add: isDouble_def roundToDouble_minus)

lemma isDouble_max: "isDouble x \<Longrightarrow> isDouble y \<Longrightarrow> isDouble (max x y)"
  by (simp add: max_def)

lemma isDouble_one_half: "isDouble (1 / 2)"
  using isDouble_dyadic [of 1 1] by simp

lemma isDouble_addNum: "isDouble (addNum a b)" and isDouble_subNum: "isDouble (subNum a b)"
  and isDouble_mulNum: "isDouble (mulNum a b)" and isDouble_divNum: "isDouble (divNum a b)"
  by (simp_all add: addNum_def subNum_def mulNum_def divNum_def isDouble_roundToDouble)

lemma roundToDouble_isDouble: "isDouble x \<Longrightarrow> roundToDouble x = x"
  by (simp add: isDouble_def)

text \<open>Whole numbers up to \<open>2^53\<close> and their halves are doubles: the rules that evaluate
  the examples.\<close>

lemma roundToDouble_numeral: "numeral n \<le> (2 ^ 53 :: int) \<Longrightarrow> roundToDouble (numeral n) = numeral n"
  using isDouble_numeral [of n] by (simp add: isDouble_def)

lemma roundToDouble_one: "roundToDouble 1 = 1"
  using isDouble_1 by (simp add: isDouble_def)

lemma roundToDouble_half: "numeral n \<le> (2 ^ 53 :: int) \<Longrightarrow> roundToDouble (numeral n / 2) = numeral n / 2"
  using isDouble_half [of n] by (simp add: isDouble_def)

lemma roundToDouble_one_half: "roundToDouble (1 / 2) = 1 / 2"
  using isDouble_one_half by (simp add: isDouble_def)

lemmas double_eval =
  addNum_def subNum_def mulNum_def divNum_def roundToDouble_zero roundToDouble_one
  roundToDouble_numeral roundToDouble_half roundToDouble_one_half

section \<open>Evaluation of the examples\<close>

lemmas example_defs =
  insertResultToTimeline_def exampleResult_def completedResult_def exampleOutput_def
  overlapOutput_def exampleElement_def buildTextElements_def sentenceElement_def wordElement_def
  styledElement_def sortByStartTime_def createTranscriptFromWhisperOutput_def convertChunk_def
  present_def fallbackWords_def splitWhitespace_def trim_def isWhitespace_def
  natToString.simps digitChar_def resolvedChunk_def timing_def double_eval

text \<open>The roundings that the examples need, with every number written out; the
  denominators are powers of two, from \<open>2^43 = 8796093022208\<close> to
  \<open>2^55 = 36028797018963968\<close>. First the doubles of the decimal literals \<open>0.03\<close>, \<open>0.29\<close>
  and \<open>1.001\<close>.\<close>

lemma double_0_03: "roundToDouble (3 / 100) = 1080863910568919 / 36028797018963968"
  by (subst roundToDouble_eval [where e = "-6"]) (simp_all add: roundHalfEven_def)

lemma double_0_29: "roundToDouble (29 / 100) = 5224175567749775 / 18014398509481984"
  by (subst roundToDouble_eval [where e = "-2"]) (simp_all add: roundHalfEven_def)

lemma double_1_001: "roundToDouble (1001 / 1000) = 2254051613498933 / 2251799813685248"
  by (subst roundToDouble_eval [where e = "0"]) (simp_all add: roundHalfEven_def)

lemma double_again_0_03:
  "roundToDouble (1080863910568919 / 36028797018963968) = 1080863910568919 / 36028797018963968"
  using roundToDouble_idem [of "3 / 100"] by (simp only: double_0_03)

lemma double_again_0_29:
  "roundToDouble (5224175567749775 / 18014398509481984) = 5224175567749775 / 18014398509481984"
  using roundToDouble_idem [of "29 / 100"] by (simp only: double_0_29)

lemma double_again_1_001:
  "roundToDouble (2254051613498933 / 2251799813685248) = 2254051613498933 / 2251799813685248"
  using roundToDouble_idem [of "1001 / 1000"] by (simp only: double_1_001)

text \<open>On these doubles: \<open>2 - 0.03\<close> and \<open>3 - 0.29\<close> (the exact differences are the
  arguments), \<open>0.03 + 1.97\<close>, \<open>0.29 - 0.03\<close> and \<open>0.03 + 0.26\<close>.\<close>

lemma sub_2_0_03: "roundToDouble (70976730127359017 / 36028797018963968) = 8872091265919877 / 4503599627370496"
  by (subst roundToDouble_eval [where e = "0"]) (simp_all add: roundHalfEven_def)

lemma sub_3_0_29: "roundToDouble (48819019960696177 / 18014398509481984) = 3051188747543511 / 1125899906842624"
  by (subst roundToDouble_eval [where e = "1"]) (simp_all add: roundHalfEven_def)

lemma add_0_03_1_97: "roundToDouble (72057594037927935 / 36028797018963968) = 2"
  by (subst roundToDouble_eval [where e = "0"]) (simp_all add: roundHalfEven_def)

lemma sub_0_29_0_03: "roundToDouble (9367487224930631 / 36028797018963968) = 1170935903116329 / 4503599627370496"
  by (subst roundToDouble_eval [where e = "-2"]) (simp_all add: roundHalfEven_def)

lemma add_0_03_0_26: "roundToDouble (10448351135499551 / 36028797018963968) = 326510972984361 / 1125899906842624"
  by (subst roundToDouble_eval [where e = "-2"]) (simp_all add: roundHalfEven_def)

text \<open>\<open>1.001 * 1000\<close>, \<open>1000 / 15\<close> and fifteen times that quotient.\<close>

lemma mul_1_001_1000: "roundToDouble (281756451687366625 / 281474976710656) = 8804889115230207 / 8796093022208"
  by (subst roundToDouble_eval [where e = "9"]) (simp_all add: roundHalfEven_def)

lemma div_1000_15: "roundToDouble (200 / 3) = 4691249611844267 / 70368744177664"
  by (subst roundToDouble_eval [where e = "6"]) (simp_all add: roundHalfEven_def)

lemma mul_15_share: "roundToDouble (70368744177664005 / 70368744177664) = 8796093022208001 / 8796093022208"
  by (subst roundToDouble_eval [where e = "9"]) (simp_all add: roundHalfEven_def)

lemma double_again_1_001_ms:
  "roundToDouble (8804889115230207 / 8796093022208) = 8804889115230207 / 8796093022208"
  using roundToDouble_idem [of "281756451687366625 / 281474976710656"] by (simp only: mul_1_001_1000)

lemma double_again_15_shares:
  "roundToDouble (8796093022208001 / 8796093022208) = 8796093022208001 / 8796093022208"
  using roundToDouble_idem [of "70368744177664005 / 70368744177664"] by (simp only: mul_15_share)

lemmas rounding_eval =
  double_0_03 double_0_29 double_1_001 double_again_0_03 double_again_0_29 double_again_1_001
  sub_2_0_03 sub_3_0_29 add_0_03_1_97 sub_0_29_0_03 add_0_03_0_26
  mul_1_001_1000 div_1000_15 mul_15_share double_again_1_001_ms double_again_15_shares

section \<open>Overlap resolution\<close>

lemma resolveOverlaps_length: "length (resolveOverlaps xs) = length xs"
  by (induction xs rule: resolveOverlaps.induct) simp_all

lemma resolveOverlaps_startTime: "map te_startTime (resolveOverlaps xs) = map te_startTime xs"
  by (induction xs rule: resolveOverlaps.induct) simp_all

text \<open>The pass on element \<open>i\<close>: the test and the clamp read the sorted list.\<close>

lemma resolveOverlaps_step:
  "Suc i < length xs \<Longrightarrow>
   te_duration (resolveOverlaps xs ! i)
     = (if te_startTime (xs ! Suc i) < addNum (te_startTime (xs ! i)) (te_duration (xs ! i))
        then subNum (te_startTime (xs ! Suc i)) (te_startTime (xs ! i))
        else te_duration (xs ! i))"
proof (induction xs arbitrary: i rule: resolveOverlaps.induct)
  case (3 current "next" rest)
  then show ?case by (cases i) auto
qed simp_all

text \<open>A clamp never raises a duration: when the rounded end lies after the next start, the
  exact end does too, and so the rounded difference is at most the duration.\<close>

lemma clamp_le:
  assumes "isDouble d" and "isDouble n" and "n < addNum s d"
  shows "subNum n s \<le> d"
proof (rule ccontr)
  assume "\<not> subNum n s \<le> d"
  then have lt: "d < roundToDouble (n - s)" by (simp add: subNum_def)
  have "\<not> n - s \<le> d"
  proof
    assume "n - s \<le> d"
    then have "roundToDouble (n - s) \<le> roundToDouble d" by (rule roundToDouble_mono)
    then show False using lt assms(1) by (simp add: isDouble_def)
  qed
  then have "s + d \<le> n" by simp
  then have "roundToDouble (s + d) \<le> roundToDouble n" by (rule roundToDouble_mono)
  then show False using assms(2,3) by (simp add: isDouble_def addNum_def)
qed

lemma resolveOverlaps_duration_le:
  assumes "\<forall>x \<in> set xs. isDouble (te_startTime x) \<and> isDouble (te_duration x)"
    and "i < length xs"
  shows "te_duration (resolveOverlaps xs ! i) \<le> te_duration (xs ! i)"
  using assms
proof (induction xs arbitrary: i rule: resolveOverlaps.induct)
  case (3 current "next" rest)
  show ?case
  proof (cases i)
    case 0
    then show ?thesis using 3(2) by (simp add: clamp_le)
  next
    case (Suc j)
    then show ?thesis using 3 by simp
  qed
qed simp_all

lemma resolveOverlaps_other_fields:
  "i < length xs \<Longrightarrow> resolveOverlaps xs ! i = (xs ! i)\<lparr>te_duration := te_duration (resolveOverlaps xs ! i)\<rparr>"
proof (induction xs arbitrary: i rule: resolveOverlaps.induct)
  case (3 current "next" rest)
  then show ?case by (cases i) auto
qed simp_all

lemma subNum_nonneg: "s \<le> n \<Longrightarrow> 0 \<le> subNum n s"
  using roundToDouble_mono [of 0 "n - s"] by (simp add: subNum_def roundToDouble_zero)

lemma resolveOverlaps_nonneg:
  "sorted (map te_startTime xs) \<Longrightarrow> \<forall>x \<in> set xs. 0 \<le> te_duration x \<Longrightarrow>
   \<forall>x \<in> set (resolveOverlaps xs). 0 \<le> te_duration x"
  by (induction xs rule: resolveOverlaps.induct) (auto simp: subNum_nonneg)

lemma sortByStartTime_sorted: "sorted (map te_startTime (sortByStartTime xs))"
  by (simp add: sortByStartTime_def)

lemma sortByStartTime_length: "length (sortByStartTime xs) = length xs"
  by (simp add: sortByStartTime_def)

lemma sortByStartTime_mset: "mset (sortByStartTime xs) = mset xs"
  by (simp add: sortByStartTime_def)

lemma sortByStartTime_set: "set (sortByStartTime xs) = set xs"
  by (simp add: sortByStartTime_def)

text \<open>Every time of a candidate is the result of a rounded operation, or the constant of
  its minimum duration.\<close>

lemma buildTextElements_doubles:
  "\<forall>x \<in> set (buildTextElements mode timelineOffset result).
     isDouble (te_startTime x) \<and> isDouble (te_duration x)"
  by (cases mode)
     (auto simp: buildTextElements_def wordElement_def sentenceElement_def styledElement_def
        Let_def isDouble_addNum isDouble_subNum isDouble_divNum isDouble_1 isDouble_one_half
        intro!: isDouble_max)

lemma sorted_candidates_doubles:
  "\<forall>x \<in> set (sortByStartTime (buildTextElements mode timelineOffset result)).
     isDouble (te_startTime x) \<and> isDouble (te_duration x)"
  using buildTextElements_doubles by (simp add: sortByStartTime_set)

lemma insertResultToTimeline_Some:
  assumes "find (\<lambda>r. r_id r = resultId) results = Some result"
  shows "insertResultToTimeline results (Some element) resultId mode
         = Some (resolveOverlaps (sortByStartTime (buildTextElements mode (e_startTime element) result)),
                 map (\<lambda>r. if r_id r = resultId
                           then r\<lparr>r_chunks := map resolvedChunk
                                  (resolveOverlaps (sortByStartTime (buildTextElements mode (e_startTime element) result)))\<rparr>
                           else r) results)"
  using assms by (simp add: insertResultToTimeline_def Let_def)

text \<open>Two neighbours after the pass. When the pass clamps, the duration is the rounded
  difference of the start times, which is within one part in \<open>2^53\<close> of the exact
  difference; when it does not, the rounded end is not after the next start, and the
  exact end is within one part in \<open>2^53\<close> of it.\<close>

lemma resolveOverlaps_neighbours:
  assumes "sorted (map te_startTime xs)" and "Suc i < length xs"
  shows "let a = resolveOverlaps xs ! i; b = resolveOverlaps xs ! Suc i;
             before = te_duration (xs ! i)
         in if te_startTime b < addNum (te_startTime a) before
            then te_duration a = subNum (te_startTime b) (te_startTime a)
               \<and> \<bar>te_startTime a + te_duration a - te_startTime b\<bar>
                    \<le> (te_startTime b - te_startTime a) / 2 ^ 53
            else te_duration a = before
               \<and> addNum (te_startTime a) (te_duration a) \<le> te_startTime b
               \<and> te_startTime a + te_duration a
                    \<le> te_startTime b + \<bar>te_startTime a + te_duration a\<bar> / 2 ^ 53"
proof -
  have i: "i < length xs" using assms(2) by simp
  have sa: "te_startTime (resolveOverlaps xs ! i) = te_startTime (xs ! i)"
    using arg_cong [OF resolveOverlaps_startTime [of xs], of "\<lambda>l. l ! i"] i
    by (simp add: resolveOverlaps_length)
  have sb: "te_startTime (resolveOverlaps xs ! Suc i) = te_startTime (xs ! Suc i)"
    using arg_cong [OF resolveOverlaps_startTime [of xs], of "\<lambda>l. l ! Suc i"] assms(2)
    by (simp add: resolveOverlaps_length)
  have le: "te_startTime (xs ! i) \<le> te_startTime (xs ! Suc i)"
    using sorted_nth_mono [OF assms(1), of i "Suc i"] assms(2) by simp
  define s where "s = te_startTime (xs ! i)"
  define n where "n = te_startTime (xs ! Suc i)"
  define d where "d = te_duration (xs ! i)"
  have step: "te_duration (resolveOverlaps xs ! i)
              = (if n < addNum s d then subNum n s else d)"
    using resolveOverlaps_step [OF assms(2)] by (simp add: s_def n_def d_def)
  show ?thesis
  proof (cases "n < addNum s d")
    case True
    have "\<bar>s + subNum n s - n\<bar> = \<bar>roundToDouble (n - s) - (n - s)\<bar>"
      by (simp add: subNum_def algebra_simps)
    also have "\<dots> \<le> \<bar>n - s\<bar> / 2 ^ 53" by (rule roundToDouble_error)
    also have "\<dots> = (n - s) / 2 ^ 53" using le by (simp add: s_def n_def)
    finally show ?thesis
      using True step by (simp add: Let_def sa sb s_def [symmetric] n_def [symmetric] d_def [symmetric])
  next
    case False
    then have r: "roundToDouble (s + d) \<le> n" by (simp add: addNum_def)
    have "\<bar>roundToDouble (s + d) - (s + d)\<bar> \<le> \<bar>s + d\<bar> / 2 ^ 53" by (rule roundToDouble_error)
    then have "s + d \<le> n + \<bar>s + d\<bar> / 2 ^ 53" using r by linarith
    then show ?thesis
      using False step by (simp add: Let_def sa sb s_def [symmetric] n_def [symmetric] d_def [symmetric])
  qed
qed

text \<open>
  Claim C1. For every stored result, selected element and mode, the elements that
  \<open>insertResultToTimeline\<close> hands to the timeline are the candidates in the order of their
  start times, and no duration is larger than the same element's duration before the
  pass. For an element and its successor: when the pass clamps, the duration is the
  difference of the two start times as the subtraction of doubles gives it, so that
  \<open>startTime + duration\<close> differs from the successor's start by at most the distance of
  the two starts divided by \<open>2^53\<close>; when it does not clamp, the duration is unchanged and
  \<open>startTime + duration\<close>, added as doubles, is not after the successor's start. The
  counterexample below has \<open>startTime + duration\<close> after the successor's start.
\<close>

theorem insertResultToTimeline_overlap_resolution:
  assumes "find (\<lambda>r. r_id r = resultId) results = Some result"
  shows "case insertResultToTimeline results (Some element) resultId mode of
           None \<Rightarrow> False
         | Some (resolvedElements, results') \<Rightarrow>
             (let textElements = buildTextElements mode (e_startTime element) result;
                  sortedElements = sortByStartTime textElements
              in mset sortedElements = mset textElements
               \<and> length resolvedElements = length sortedElements
               \<and> map te_startTime resolvedElements = map te_startTime sortedElements
               \<and> sorted (map te_startTime resolvedElements)
               \<and> (\<forall>i. Suc i < length resolvedElements \<longrightarrow>
                     (let a = resolvedElements ! i; b = resolvedElements ! Suc i;
                          before = te_duration (sortedElements ! i)
                      in if te_startTime b < addNum (te_startTime a) before
                         then te_duration a = subNum (te_startTime b) (te_startTime a)
                            \<and> \<bar>te_startTime a + te_duration a - te_startTime b\<bar>
                                 \<le> (te_startTime b - te_startTime a) / 2 ^ 53
                         else te_duration a = before
                            \<and> addNum (te_startTime a) (te_duration a) \<le> te_startTime b
                            \<and> te_startTime a + te_duration a
                                 \<le> te_startTime b + \<bar>te_startTime a + te_duration a\<bar> / 2 ^ 53))
               \<and> (\<forall>i < length resolvedElements.
                      te_duration (resolvedElements ! i) \<le> te_duration (sortedElements ! i)))"
proof -
  let ?sorted = "sortByStartTime (buildTextElements mode (e_startTime element) result)"
  have s: "sorted (map te_startTime ?sorted)" by (rule sortByStartTime_sorted)
  have n: "\<forall>i. Suc i < length (resolveOverlaps ?sorted) \<longrightarrow>
             (let a = resolveOverlaps ?sorted ! i; b = resolveOverlaps ?sorted ! Suc i;
                  before = te_duration (?sorted ! i)
              in if te_startTime b < addNum (te_startTime a) before
                 then te_duration a = subNum (te_startTime b) (te_startTime a)
                    \<and> \<bar>te_startTime a + te_duration a - te_startTime b\<bar>
                         \<le> (te_startTime b - te_startTime a) / 2 ^ 53
                 else te_duration a = before
                    \<and> addNum (te_startTime a) (te_duration a) \<le> te_startTime b
                    \<and> te_startTime a + te_duration a
                         \<le> te_startTime b + \<bar>te_startTime a + te_duration a\<bar> / 2 ^ 53)"
    using resolveOverlaps_neighbours [OF s] by (simp only: resolveOverlaps_length) blast
  have d: "\<forall>i < length (resolveOverlaps ?sorted).
             te_duration (resolveOverlaps ?sorted ! i) \<le> te_duration (?sorted ! i)"
    using resolveOverlaps_duration_le [OF sorted_candidates_doubles]
    by (simp add: resolveOverlaps_length)
  show ?thesis
    unfolding insertResultToTimeline_Some [OF assms] Let_def
    using n d s
    by (simp add: Let_def resolveOverlaps_length resolveOverlaps_startTime sortByStartTime_mset)
qed

theorem insertResultToTimeline_overlap_resolution_witness:
  "find (\<lambda>r. r_id r = ''r1'') [exampleResult overlapOutput] = Some (exampleResult overlapOutput)
   \<and> map timing (sortByStartTime (buildTextElements Sentences 0 (exampleResult overlapOutput)))
       = [(0, 3), (2, 3)]
   \<and> (case insertResultToTimeline [exampleResult overlapOutput] (Some (exampleElement 0)) ''r1'' Sentences of
         None \<Rightarrow> False
       | Some (resolvedElements, results') \<Rightarrow>
           map timing resolvedElements = [(0, 2), (2, 3)]
           \<and> sorted (map te_startTime resolvedElements)
           \<and> te_duration (resolvedElements ! 0)
                = subNum (te_startTime (resolvedElements ! 1)) (te_startTime (resolvedElements ! 0))
           \<and> te_startTime (resolvedElements ! 0) + te_duration (resolvedElements ! 0)
                \<le> te_startTime (resolvedElements ! 1))"
proof -
  let ?sorted = "sortByStartTime (buildTextElements Sentences 0 (exampleResult overlapOutput))"
  let ?resolved = "resolveOverlaps ?sorted"
  have h: "find (\<lambda>r. r_id r = ''r1'') [exampleResult overlapOutput] = Some (exampleResult overlapOutput)"
    by (simp add: exampleResult_def completedResult_def)
  have s: "map timing ?sorted = [(0, 3), (2, 3)]"
    by (simp add: example_defs)
  have r: "map timing ?resolved = [(0, 2), (2, 3)]"
    by (simp add: example_defs)
  have len: "length ?resolved = 2"
    using r by (metis length_map length_Cons list.size(3) numeral_2_eq_2)
  have t0: "timing (?resolved ! 0) = (0, 2)" and t1: "timing (?resolved ! 1) = (2, 3)"
    using arg_cong [OF r, of "\<lambda>l. l ! 0"] arg_cong [OF r, of "\<lambda>l. l ! 1"] len by simp_all
  have d0: "te_duration (?sorted ! 0) = 3"
    using arg_cong [OF s, of "\<lambda>l. snd (l ! 0)"] by (simp add: timing_def sortByStartTime_length buildTextElements_def exampleResult_def completedResult_def overlapOutput_def)
  obtain results' where
    e: "insertResultToTimeline [exampleResult overlapOutput] (Some (exampleElement 0)) ''r1'' Sentences
         = Some (?resolved, results')"
    using insertResultToTimeline_Some [OF h, where element = "exampleElement 0" and mode = Sentences]
    by (simp add: exampleElement_def)
  have off: "e_startTime (exampleElement 0) = 0" by (simp add: exampleElement_def)
  note c = insertResultToTimeline_overlap_resolution
             [OF h, where element = "exampleElement 0" and mode = Sentences,
              unfolded e off option.case prod.case Let_def]
  from c have so: "sorted (map te_startTime ?resolved)" by blast
  from c have "\<forall>i. Suc i < length ?resolved \<longrightarrow>
                 (if te_startTime (?resolved ! Suc i)
                       < addNum (te_startTime (?resolved ! i)) (te_duration (?sorted ! i))
                  then te_duration (?resolved ! i)
                         = subNum (te_startTime (?resolved ! Suc i)) (te_startTime (?resolved ! i))
                       \<and> \<bar>te_startTime (?resolved ! i) + te_duration (?resolved ! i)
                            - te_startTime (?resolved ! Suc i)\<bar>
                           \<le> (te_startTime (?resolved ! Suc i) - te_startTime (?resolved ! i)) / 2 ^ 53
                  else te_duration (?resolved ! i) = te_duration (?sorted ! i)
                       \<and> addNum (te_startTime (?resolved ! i)) (te_duration (?resolved ! i))
                           \<le> te_startTime (?resolved ! Suc i)
                       \<and> te_startTime (?resolved ! i) + te_duration (?resolved ! i)
                           \<le> te_startTime (?resolved ! Suc i)
                              + \<bar>te_startTime (?resolved ! i) + te_duration (?resolved ! i)\<bar> / 2 ^ 53)"
    by blast
  then have step:
    "if te_startTime (?resolved ! Suc 0) < addNum (te_startTime (?resolved ! 0)) (te_duration (?sorted ! 0))
     then te_duration (?resolved ! 0)
            = subNum (te_startTime (?resolved ! Suc 0)) (te_startTime (?resolved ! 0))
          \<and> \<bar>te_startTime (?resolved ! 0) + te_duration (?resolved ! 0)
               - te_startTime (?resolved ! Suc 0)\<bar>
              \<le> (te_startTime (?resolved ! Suc 0) - te_startTime (?resolved ! 0)) / 2 ^ 53
     else te_duration (?resolved ! 0) = te_duration (?sorted ! 0)
          \<and> addNum (te_startTime (?resolved ! 0)) (te_duration (?resolved ! 0))
              \<le> te_startTime (?resolved ! Suc 0)
          \<and> te_startTime (?resolved ! 0) + te_duration (?resolved ! 0)
              \<le> te_startTime (?resolved ! Suc 0)
                 + \<bar>te_startTime (?resolved ! 0) + te_duration (?resolved ! 0)\<bar> / 2 ^ 53"
    using len by simp
  have clamped: "te_startTime (?resolved ! Suc 0)
                   < addNum (te_startTime (?resolved ! 0)) (te_duration (?sorted ! 0))"
    using t0 t1 d0 by (simp add: timing_def double_eval)
  have cl: "te_duration (?resolved ! 0)
              = subNum (te_startTime (?resolved ! Suc 0)) (te_startTime (?resolved ! 0))"
    using step clamped by simp
  have le: "te_startTime (?resolved ! 0) + te_duration (?resolved ! 0) \<le> te_startTime (?resolved ! Suc 0)"
    using t0 t1 by (simp add: timing_def)
  show ?thesis
    unfolding e using h s r so cl le by simp
qed

text \<open>After the pass on the chunks \<open>[0.03, 2]\<close> and \<open>[0.29, 3]\<close>, the first element has the
  duration \<open>0.29 - 0.03\<close> as the doubles give it, and \<open>startTime + duration\<close> is after
  the start of the second: by \<open>2^-55\<close> in exact arithmetic, and \<open>0.29000000000000004\<close>
  against \<open>0.29\<close> when added as doubles.\<close>

theorem insertResultToTimeline_rounding_counterexample:
  "case insertResultToTimeline [exampleResult roundingOutput] (Some (exampleElement 0)) ''r1'' Sentences of
     None \<Rightarrow> False
   | Some (resolvedElements, results') \<Rightarrow>
       map timing resolvedElements
         = [(roundToDouble 0.03, subNum (roundToDouble 0.29) (roundToDouble 0.03)),
            (roundToDouble 0.29, subNum 3 (roundToDouble 0.29))]
       \<and> map timing resolvedElements
         = [(1080863910568919 / 2 ^ 55, 1170935903116329 / 2 ^ 52),
            (5224175567749775 / 2 ^ 54, 3051188747543511 / 2 ^ 50)]
       \<and> te_startTime (resolvedElements ! 0) + te_duration (resolvedElements ! 0)
            = te_startTime (resolvedElements ! 1) + 1 / 2 ^ 55
       \<and> te_startTime (resolvedElements ! 1)
            < te_startTime (resolvedElements ! 0) + te_duration (resolvedElements ! 0)
       \<and> addNum (te_startTime (resolvedElements ! 0)) (te_duration (resolvedElements ! 0))
            = 326510972984361 / 2 ^ 50
       \<and> te_startTime (resolvedElements ! 1)
            < addNum (te_startTime (resolvedElements ! 0)) (te_duration (resolvedElements ! 0))"
proof -
  let ?sorted = "sortByStartTime (buildTextElements Sentences 0 (exampleResult roundingOutput))"
  let ?resolved = "resolveOverlaps ?sorted"
  have h: "find (\<lambda>r. r_id r = ''r1'') [exampleResult roundingOutput] = Some (exampleResult roundingOutput)"
    by (simp add: exampleResult_def completedResult_def)
  have r: "map timing ?resolved
           = [(1080863910568919 / 36028797018963968, 1170935903116329 / 4503599627370496),
              (5224175567749775 / 18014398509481984, 3051188747543511 / 1125899906842624)]"
    by (simp add: example_defs roundingOutput_def rounding_eval)
  have len: "length ?resolved = 2"
    using r by (metis length_map length_Cons list.size(3) numeral_2_eq_2)
  have t0: "timing (?resolved ! 0) = (1080863910568919 / 36028797018963968, 1170935903116329 / 4503599627370496)"
    and t1: "timing (?resolved ! 1) = (5224175567749775 / 18014398509481984, 3051188747543511 / 1125899906842624)"
    using arg_cong [OF r, of "\<lambda>l. l ! 0"] arg_cong [OF r, of "\<lambda>l. l ! 1"] len by simp_all
  obtain results' where
    e: "insertResultToTimeline [exampleResult roundingOutput] (Some (exampleElement 0)) ''r1'' Sentences
         = Some (?resolved, results')"
    using insertResultToTimeline_Some [OF h, where element = "exampleElement 0" and mode = Sentences]
    by (simp add: exampleElement_def)
  have v: "map timing ?resolved
         = [(roundToDouble 0.03, subNum (roundToDouble 0.29) (roundToDouble 0.03)),
            (roundToDouble 0.29, subNum 3 (roundToDouble 0.29))]"
    unfolding r by (simp add: subNum_def rounding_eval)
  have s0: "te_startTime (?resolved ! 0) = 1080863910568919 / 36028797018963968"
    and d0: "te_duration (?resolved ! 0) = 1170935903116329 / 4503599627370496"
    and s1: "te_startTime (?resolved ! 1) = 5224175567749775 / 18014398509481984"
    using t0 t1 by (simp_all add: timing_def)
  have w: "map timing ?resolved
         = [(1080863910568919 / 2 ^ 55, 1170935903116329 / 2 ^ 52),
            (5224175567749775 / 2 ^ 54, 3051188747543511 / 2 ^ 50)]"
    unfolding r by simp
  have x: "te_startTime (?resolved ! 0) + te_duration (?resolved ! 0)
            = te_startTime (?resolved ! 1) + 1 / 2 ^ 55"
    unfolding s0 d0 s1 by simp
  have y: "te_startTime (?resolved ! 1)
            < te_startTime (?resolved ! 0) + te_duration (?resolved ! 0)"
    unfolding s0 d0 s1 by simp
  have a: "addNum (te_startTime (?resolved ! 0)) (te_duration (?resolved ! 0)) = 326510972984361 / 2 ^ 50"
    unfolding s0 d0 by (simp add: addNum_def rounding_eval)
  have z: "te_startTime (?resolved ! 1)
            < addNum (te_startTime (?resolved ! 0)) (te_duration (?resolved ! 0))"
    unfolding a s1 by simp
  show ?thesis
    unfolding e option.case prod.case using v w x y a z by blast
qed

text \<open>
  Claim C10. The overlap pass removes nothing: the elements handed to the timeline are as
  many as the candidates, the sorted list is a permutation of the candidates, the start
  times are those of the sorted list, and element \<open>i\<close> of the output is element \<open>i\<close> of the
  sorted list with at most its duration changed, and only downward. The witness shows an
  element whose clamped duration is zero still being handed to the timeline.
\<close>

theorem insertResultToTimeline_keeps_every_element:
  assumes "find (\<lambda>r. r_id r = resultId) results = Some result"
  shows "case insertResultToTimeline results (Some element) resultId mode of
           None \<Rightarrow> False
         | Some (resolvedElements, results') \<Rightarrow>
             (let textElements = buildTextElements mode (e_startTime element) result;
                  sortedElements = sortByStartTime textElements
              in mset sortedElements = mset textElements
               \<and> length resolvedElements = length textElements
               \<and> map te_startTime resolvedElements = map te_startTime sortedElements
               \<and> (\<forall>i < length resolvedElements.
                      resolvedElements ! i
                        = (sortedElements ! i)\<lparr>te_duration := te_duration (resolvedElements ! i)\<rparr>
                      \<and> te_duration (resolvedElements ! i) \<le> te_duration (sortedElements ! i)))"
  unfolding insertResultToTimeline_Some [OF assms] Let_def
  using resolveOverlaps_other_fields [of _ "sortByStartTime (buildTextElements mode (e_startTime element) result)"]
    resolveOverlaps_duration_le [OF sorted_candidates_doubles, of _ mode "e_startTime element" result]
  by (simp add: resolveOverlaps_length resolveOverlaps_startTime
      sortByStartTime_mset sortByStartTime_length)

theorem insertResultToTimeline_keeps_every_element_witness:
  "find (\<lambda>r. r_id r = ''r1'') [exampleResult sameStartOutput] = Some (exampleResult sameStartOutput)
   \<and> map timing (buildTextElements Sentences 0 (exampleResult sameStartOutput)) = [(1, 2), (1, 1)]
   \<and> (case insertResultToTimeline [exampleResult sameStartOutput] (Some (exampleElement 0)) ''r1'' Sentences of
         None \<Rightarrow> False
       | Some (resolvedElements, results') \<Rightarrow>
           map timing resolvedElements = [(1, 0), (1, 1)]
           \<and> length resolvedElements
               = length (buildTextElements Sentences 0 (exampleResult sameStartOutput)))"
proof -
  let ?els = "buildTextElements Sentences 0 (exampleResult sameStartOutput)"
  have h: "find (\<lambda>r. r_id r = ''r1'') [exampleResult sameStartOutput] = Some (exampleResult sameStartOutput)"
    by (simp add: exampleResult_def completedResult_def)
  have s: "map timing ?els = [(1, 2), (1, 1)]"
    by (simp add: example_defs sameStartOutput_def)
  have r: "map timing (resolveOverlaps (sortByStartTime ?els)) = [(1, 0), (1, 1)]"
    by (simp add: example_defs sameStartOutput_def)
  obtain results' where
    e: "insertResultToTimeline [exampleResult sameStartOutput] (Some (exampleElement 0)) ''r1'' Sentences
         = Some (resolveOverlaps (sortByStartTime ?els), results')"
    using insertResultToTimeline_Some [OF h, where element = "exampleElement 0" and mode = Sentences]
    by (simp add: exampleElement_def)
  have "length (resolveOverlaps (sortByStartTime ?els)) = length ?els"
    using insertResultToTimeline_keeps_every_element
            [OF h, where element = "exampleElement 0" and mode = Sentences]
    unfolding e by (simp add: Let_def exampleElement_def)
  then show ?thesis
    unfolding e using h s r by simp
qed

text \<open>The elements are sorted by start time before the pass, so a clamped duration is
  zero at the least: durations that are not negative stay so.\<close>

lemma resolved_durations_nonneg:
  assumes "\<forall>x \<in> set xs. 0 \<le> te_duration x"
  shows "\<forall>x \<in> set (resolveOverlaps (sortByStartTime xs)). 0 \<le> te_duration x"
proof (rule resolveOverlaps_nonneg)
  show "sorted (map te_startTime (sortByStartTime xs))" by (rule sortByStartTime_sorted)
  show "\<forall>x\<in>set (sortByStartTime xs). 0 \<le> te_duration x"
    using assms by (simp add: sortByStartTime_def)
qed

section \<open>Timing of the projected elements\<close>








section \<open>Synthesized words\<close>

subsection \<open>The pieces of the trimmed text are the words of the text\<close>

lemma wordsOf_Nil: "wordsOf [] = []"
  by (simp add: wordsOf.simps)

lemma wordsOf_all_whitespace:
  assumes "\<forall>x \<in> set s. isWhitespace x"
  shows "wordsOf s = []"
proof -
  have d: "dropWhile isWhitespace s = []" using assms by simp
  show ?thesis by (subst wordsOf.simps) (simp only: d list.case)
qed

lemma wordsOf_not_Nil: "\<exists>x \<in> set s. \<not> isWhitespace x \<Longrightarrow> wordsOf s \<noteq> []"
  by (subst wordsOf.simps) (auto split: list.splits simp: dropWhile_eq_Nil_conv)

lemma wordsOf_dropWhile: "wordsOf (dropWhile isWhitespace s) = wordsOf s"
  by (subst wordsOf.simps, subst (2) wordsOf.simps) (simp add: dropWhile_idem)

lemma wordsOf_word:
  assumes "\<not> isWhitespace c"
  shows "wordsOf (c # cs) = (c # takeWhile (\<lambda>x. \<not> isWhitespace x) cs)
                             # wordsOf (dropWhile (\<lambda>x. \<not> isWhitespace x) cs)"
  using assms by (subst wordsOf.simps) simp

lemma splitWs_word:
  "\<forall>x \<in> set a. \<not> isWhitespace x \<Longrightarrow> splitWs False cur (a @ rest) = splitWs False (rev a @ cur) rest"
  by (induction a arbitrary: cur) simp_all

lemma splitWs_separator:
  "\<forall>x \<in> set a. isWhitespace x \<Longrightarrow> splitWs True cur (a @ rest) = splitWs True cur rest"
  by (induction a) simp_all

lemma splitWs_words:
  "s = [] \<or> \<not> isWhitespace (last s) \<Longrightarrow>
   splitWs True [] s = (if wordsOf s = [] then [[]] else wordsOf s)"
proof (induction s rule: wordsOf.induct)
  case (1 s)
  show ?case
  proof (cases "dropWhile isWhitespace s")
    case Nil
    then have "\<forall>x \<in> set s. isWhitespace x" by (simp add: dropWhile_eq_Nil_conv)
    then have "s = []" using 1(2) last_in_set by blast
    then show ?thesis by (simp add: wordsOf_Nil)
  next
    case (Cons c cs)
    then have c: "\<not> isWhitespace c" by (metis hd_dropWhile list.sel(1) list.distinct(1))
    define a where "a = c # takeWhile (\<lambda>x. \<not> isWhitespace x) cs"
    define rest where "rest = dropWhile (\<lambda>x. \<not> isWhitespace x) cs"
    have s: "s = takeWhile isWhitespace s @ c # cs"
      using Cons takeWhile_dropWhile_id [of isWhitespace s] by simp
    have cs: "cs = takeWhile (\<lambda>x. \<not> isWhitespace x) cs @ rest" by (simp add: rest_def)
    have w: "wordsOf s = a # wordsOf rest"
      using wordsOf_dropWhile [of s] wordsOf_word [OF c, of cs] by (simp add: Cons a_def rest_def)
    have "splitWs True [] s = splitWs True [] (c # cs)"
      using splitWs_separator [of "takeWhile isWhitespace s" "[]" "c # cs"] s
      by (metis set_takeWhileD)
    also have "\<dots> = splitWs False [c] (takeWhile (\<lambda>x. \<not> isWhitespace x) cs @ rest)"
      using c cs by simp
    also have "\<dots> = splitWs False (rev a) rest"
      using splitWs_word [of "takeWhile (\<lambda>x. \<not> isWhitespace x) cs" "[c]" rest]
      by (simp add: a_def) (metis set_takeWhileD)
    finally have sp: "splitWs True [] s = splitWs False (rev a) rest" .
    show ?thesis
    proof (cases rest)
      case Nil
      then show ?thesis by (simp add: sp w wordsOf_Nil)
    next
      case (Cons x r)
      then have x: "isWhitespace x"
        using hd_dropWhile [of "\<lambda>x. \<not> isWhitespace x" cs] by (simp add: rest_def)
      have ls: "last s = last rest"
        using s cs Cons by (metis last_appendR last_ConsR list.distinct(1) append_is_Nil_conv)
      then have nl: "\<not> isWhitespace (last rest)" using 1(2) s by auto
      have dr: "dropWhile (\<lambda>x. \<not> isWhitespace x) (c # cs) = rest"
        using c by (simp add: rest_def)
      have ih: "splitWs True [] rest = (if wordsOf rest = [] then [[]] else wordsOf rest)"
        using 1(1) [OF \<open>dropWhile isWhitespace s = c # cs\<close>, unfolded dr] nl by simp
      have "last rest \<in> set rest" using Cons by simp
      then have ne: "wordsOf rest \<noteq> []" using nl wordsOf_not_Nil by blast
      have "splitWs True [] rest = splitWs True [] r" using Cons x by simp
      then have "splitWs True [] r = wordsOf rest" using ih ne by simp
      then show ?thesis using Cons x by (simp add: sp w)
    qed
  qed
qed

lemma wordsOf_append_whitespace:
  "\<forall>x \<in> set b. isWhitespace x \<Longrightarrow> wordsOf (a @ b) = wordsOf a"
proof (induction a rule: wordsOf.induct)
  case (1 s)
  show ?case
  proof (cases "dropWhile isWhitespace s")
    case Nil
    then have a: "\<forall>x \<in> set s. isWhitespace x" by (simp add: dropWhile_eq_Nil_conv)
    then have "\<forall>x \<in> set (s @ b). isWhitespace x" using 1(2) by auto
    then have "wordsOf (s @ b) = []" by (rule wordsOf_all_whitespace)
    then show ?thesis using a by (simp add: wordsOf_all_whitespace)
  next
    case (Cons c cs)
    then have c: "\<not> isWhitespace c" by (metis hd_dropWhile list.sel(1) list.distinct(1))
    obtain x where "x \<in> set s" and "\<not> isWhitespace x"
      using Cons by (metis dropWhile_eq_Nil_conv list.distinct(1))
    then have "dropWhile isWhitespace (s @ b) = dropWhile isWhitespace s @ b"
      by (rule dropWhile_append1)
    then have d: "dropWhile isWhitespace (s @ b) = c # cs @ b"
      by (simp add: Cons)
    define rest where "rest = dropWhile (\<lambda>x. \<not> isWhitespace x) cs"
    have ih: "wordsOf (rest @ b) = wordsOf rest"
      using 1(1) [OF Cons] 1(2) c by (simp add: rest_def)
    have l: "wordsOf s = (c # takeWhile (\<lambda>x. \<not> isWhitespace x) cs) # wordsOf rest"
      using wordsOf_dropWhile [of s] wordsOf_word [OF c, of cs] by (simp add: Cons rest_def)
    have r: "wordsOf (s @ b) = (c # takeWhile (\<lambda>x. \<not> isWhitespace x) (cs @ b))
                                 # wordsOf (dropWhile (\<lambda>x. \<not> isWhitespace x) (cs @ b))"
      using wordsOf_dropWhile [of "s @ b"] wordsOf_word [OF c, of "cs @ b"] by (simp add: d)
    show ?thesis
    proof (cases "\<exists>x \<in> set cs. isWhitespace x")
      case True
      then have "takeWhile (\<lambda>x. \<not> isWhitespace x) (cs @ b) = takeWhile (\<lambda>x. \<not> isWhitespace x) cs"
        and "dropWhile (\<lambda>x. \<not> isWhitespace x) (cs @ b) = rest @ b"
        by (auto simp: takeWhile_append1 dropWhile_append1 rest_def)
      then show ?thesis by (simp add: l r ih)
    next
      case False
      then have t: "takeWhile (\<lambda>x. \<not> isWhitespace x) (cs @ b) = cs"
        and dd: "dropWhile (\<lambda>x. \<not> isWhitespace x) (cs @ b) = b"
        and rr: "rest = []" and tt: "takeWhile (\<lambda>x. \<not> isWhitespace x) cs = cs"
        using 1(2) by (auto simp: takeWhile_append2 dropWhile_append2 rest_def takeWhile_eq_all_conv
            dropWhile_eq_Nil_conv intro: takeWhile_eq_Nil_iff [THEN iffD2] dropWhile_eq_self_iff [THEN iffD2])
      show ?thesis using 1(2) by (simp add: l r t dd rr tt wordsOf_all_whitespace wordsOf_Nil)
    qed
  qed
qed

lemma trim_decompose:
  "dropWhile isWhitespace s = trim s @ rev (takeWhile isWhitespace (rev (dropWhile isWhitespace s)))"
proof -
  let ?u = "dropWhile isWhitespace s"
  have "trim s @ rev (takeWhile isWhitespace (rev ?u))
        = rev (takeWhile isWhitespace (rev ?u) @ dropWhile isWhitespace (rev ?u))"
    by (simp only: trim_def rev_append)
  also have "\<dots> = rev (rev ?u)" by (simp only: takeWhile_dropWhile_id)
  also have "\<dots> = ?u" by simp
  finally show ?thesis by simp
qed

lemma wordsOf_trim: "wordsOf (trim s) = wordsOf s"
proof -
  have "wordsOf s = wordsOf (trim s @ rev (takeWhile isWhitespace (rev (dropWhile isWhitespace s))))"
    using wordsOf_dropWhile [of s] by (simp only: trim_decompose [symmetric])
  also have "\<dots> = wordsOf (trim s)"
    by (rule wordsOf_append_whitespace) (auto dest: set_takeWhileD)
  finally show ?thesis by simp
qed

lemma trim_ends:
  "trim s = [] \<or> (\<not> isWhitespace (hd (trim s)) \<and> \<not> isWhitespace (last (trim s)))"
proof (cases "trim s = []")
  case False
  let ?u = "dropWhile isWhitespace (rev (dropWhile isWhitespace s))"
  have u: "?u \<noteq> []" using False by (simp add: trim_def)
  then have "\<not> isWhitespace (hd ?u)" by (rule hd_dropWhile)
  then have l: "\<not> isWhitespace (last (trim s))" using u by (simp add: trim_def last_rev)
  have "dropWhile isWhitespace s \<noteq> []" using u by (cases "dropWhile isWhitespace s") simp_all
  then have h: "\<not> isWhitespace (hd (dropWhile isWhitespace s))" by (rule hd_dropWhile)
  have "hd (dropWhile isWhitespace s) = hd (trim s)"
    using trim_decompose [of s] False by (metis hd_append2)
  then show ?thesis using h l by simp
qed simp

lemma splitWhitespace_trim:
  "splitWhitespace (trim s) = (if wordsOf s = [] then [[]] else wordsOf s)"
proof (cases "trim s")
  case Nil
  then have "wordsOf s = []" using wordsOf_trim [of s] by (simp add: wordsOf_Nil)
  then show ?thesis by (simp add: splitWhitespace_def Nil)
next
  case (Cons c cs)
  then have c: "\<not> isWhitespace c" and l: "\<not> isWhitespace (last (trim s))"
    using trim_ends [of s] by auto
  have "splitWhitespace (trim s) = splitWs True [] (trim s)"
    using c by (simp add: splitWhitespace_def Cons)
  also have "\<dots> = (if wordsOf (trim s) = [] then [[]] else wordsOf (trim s))"
    using l by (intro splitWs_words) simp
  finally show ?thesis by (simp add: wordsOf_trim)
qed


lemma takeWhile_word: "\<forall>x \<in> set (takeWhile (\<lambda>x. \<not> isWhitespace x) cs). \<not> isWhitespace x"
  by (auto dest: set_takeWhileD)

lemma wordsOf_unfold:
  assumes "dropWhile isWhitespace s = c # cs"
  shows "\<not> isWhitespace c"
    and "wordsOf s = (c # takeWhile (\<lambda>x. \<not> isWhitespace x) cs)
                      # wordsOf (dropWhile (\<lambda>x. \<not> isWhitespace x) (c # cs))"
proof -
  show c: "\<not> isWhitespace c" using assms by (metis hd_dropWhile list.sel(1) list.distinct(1))
  have "wordsOf s = takeWhile (\<lambda>x. \<not> isWhitespace x) (c # cs)
                     # wordsOf (dropWhile (\<lambda>x. \<not> isWhitespace x) (c # cs))"
    by (subst wordsOf.simps) (simp only: assms list.case)
  then show "wordsOf s = (c # takeWhile (\<lambda>x. \<not> isWhitespace x) cs)
                      # wordsOf (dropWhile (\<lambda>x. \<not> isWhitespace x) (c # cs))"
    using c by simp
qed

lemma wordsOf_words:
  "\<forall>w \<in> set (wordsOf s). w \<noteq> [] \<and> (\<forall>x \<in> set w. \<not> isWhitespace x)"
proof (induction s rule: wordsOf.induct)
  case (1 s)
  show ?case
  proof (cases "dropWhile isWhitespace s")
    case Nil
    then have "\<forall>x \<in> set s. isWhitespace x" by (simp add: dropWhile_eq_Nil_conv)
    then have "wordsOf s = []" by (rule wordsOf_all_whitespace)
    then show ?thesis by simp
  next
    case (Cons c cs)
    note u = wordsOf_unfold [OF Cons]
    have w: "\<forall>x \<in> set (c # takeWhile (\<lambda>x. \<not> isWhitespace x) cs). \<not> isWhitespace x"
      using u(1) takeWhile_word [of cs] by simp
    show ?thesis
      unfolding u(2)
    proof
      fix v
      assume "v \<in> set ((c # takeWhile (\<lambda>x. \<not> isWhitespace x) cs)
                        # wordsOf (dropWhile (\<lambda>x. \<not> isWhitespace x) (c # cs)))"
      then consider "v = c # takeWhile (\<lambda>x. \<not> isWhitespace x) cs"
        | "v \<in> set (wordsOf (dropWhile (\<lambda>x. \<not> isWhitespace x) (c # cs)))"
        by (simp only: set_simps insert_iff) blast
      then show "v \<noteq> [] \<and> (\<forall>x \<in> set v. \<not> isWhitespace x)"
      proof cases
        case 1
        then show ?thesis using w by blast
      next
        case 2
        then show ?thesis using "1.IH" [OF Cons] by blast
      qed
    qed
  qed
qed

lemma concat_wordsOf: "concat (wordsOf s) = filter (\<lambda>x. \<not> isWhitespace x) s"
proof (induction s rule: wordsOf.induct)
  case (1 s)
  have "filter (\<lambda>x. \<not> isWhitespace x) (takeWhile isWhitespace s) = []"
    by (simp add: filter_empty_conv) (metis set_takeWhileD)
  then have "filter (\<lambda>x. \<not> isWhitespace x) (takeWhile isWhitespace s @ dropWhile isWhitespace s)
        = filter (\<lambda>x. \<not> isWhitespace x) (dropWhile isWhitespace s)"
    by (simp only: filter_append append_Nil)
  then have f: "filter (\<lambda>x. \<not> isWhitespace x) s
                = filter (\<lambda>x. \<not> isWhitespace x) (dropWhile isWhitespace s)"
    by (simp only: takeWhile_dropWhile_id)
  show ?case
  proof (cases "dropWhile isWhitespace s")
    case Nil
    then have a: "\<forall>x \<in> set s. isWhitespace x" by (simp add: dropWhile_eq_Nil_conv)
    then have "wordsOf s = []" by (rule wordsOf_all_whitespace)
    then show ?thesis using a by (simp add: filter_empty_conv)
  next
    case (Cons c cs)
    note u = wordsOf_unfold [OF Cons]
    let ?word = "takeWhile (\<lambda>x. \<not> isWhitespace x) cs"
    let ?rest = "dropWhile (\<lambda>x. \<not> isWhitespace x) cs"
    have r: "dropWhile (\<lambda>x. \<not> isWhitespace x) (c # cs) = ?rest" using u(1) by simp
    have ih: "concat (wordsOf ?rest) = filter (\<lambda>x. \<not> isWhitespace x) ?rest"
      using 1 [OF Cons] by (simp only: r)
    have "filter (\<lambda>x. \<not> isWhitespace x) ?word = ?word"
      using takeWhile_word [of cs] by (simp only: filter_id_conv)
    then have "filter (\<lambda>x. \<not> isWhitespace x) (?word @ ?rest)
               = ?word @ filter (\<lambda>x. \<not> isWhitespace x) ?rest"
      by (simp only: filter_append)
    then have "filter (\<lambda>x. \<not> isWhitespace x) cs = ?word @ concat (wordsOf ?rest)"
      by (simp only: takeWhile_dropWhile_id ih)
    then have "filter (\<lambda>x. \<not> isWhitespace x) (c # cs) = concat ((c # ?word) # wordsOf ?rest)"
      using u(1) by (simp only: filter.simps concat.simps append_Cons if_True not_False_eq_True)
    then show ?thesis
      unfolding f Cons u(2) r by (rule sym)
  qed
qed

subsection \<open>The times of the words\<close>

lemma splitWs_nonempty: "splitWs b cur s \<noteq> []"
  by (induction s arbitrary: b cur) auto

lemma splitWhitespace_nonempty: "length (splitWhitespace s) > 0"
  by (simp add: splitWhitespace_def splitWs_nonempty)

lemma fallbackWords_text: "map w_text (fallbackWords s e t) = splitWhitespace (trim t)"
proof -
  have "map w_text (fallbackWords s e t) = map snd (enumerate 0 (splitWhitespace (trim t)))"
    by (simp add: fallbackWords_def Let_def case_prod_beta comp_def)
  then show ?thesis by simp
qed

lemma fallbackWords_length: "length (fallbackWords s e t) = length (splitWhitespace (trim t))"
  by (simp add: fallbackWords_def Let_def)

lemma fallbackWords_nth:
  assumes "k < length (splitWhitespace (trim t))"
  shows "fallbackWords s e t ! k =
           \<lparr> w_text = splitWhitespace (trim t) ! k,
             w_startTime = addNum s (mulNum (real k)
                             (divNum (subNum e s) (real (length (splitWhitespace (trim t)))))),
             w_endTime = addNum s (mulNum (real (k + 1))
                             (divNum (subNum e s) (real (length (splitWhitespace (trim t)))))) \<rparr>"
  using assms by (simp add: fallbackWords_def Let_def nth_enumerate_eq add.commute)

lemma sum_list_telescope:
  fixes f :: "nat \<Rightarrow> real"
  shows "sum_list (map (\<lambda>k. f (k + 1) - f k) [0..<n]) = f n - f 0"
  by (induction n) simp_all

text \<open>The durations of the words add up to the distance from the first start to the last
  end, since every word ends where the next one starts.\<close>

lemma fallbackWords_sum:
  "sum_list (map (\<lambda>w. w_endTime w - w_startTime w) (fallbackWords s e t))
     = addNum s (mulNum (real (length (splitWhitespace (trim t))))
                  (divNum (subNum e s) (real (length (splitWhitespace (trim t))))))
       - addNum s (mulNum 0 (divNum (subNum e s) (real (length (splitWhitespace (trim t))))))"
proof -
  let ?n = "length (splitWhitespace (trim t))"
  let ?f = "\<lambda>k. addNum s (mulNum (real k) (divNum (subNum e s) (real ?n)))"
  have "map (\<lambda>w. w_endTime w - w_startTime w) (fallbackWords s e t)
        = map (\<lambda>k. ?f (k + 1) - ?f k) [0..<?n]"
    by (rule nth_equalityI) (simp_all add: fallbackWords_length fallbackWords_nth del: of_nat_Suc of_nat_add)
  moreover have "sum_list (map (\<lambda>k. ?f (k + 1) - ?f k) [0..<?n]) = ?f ?n - ?f 0"
    by (rule sum_list_telescope)
  ultimately show ?thesis by simp
qed

lemma first_boundary: "isDouble s \<Longrightarrow> addNum s (mulNum 0 d) = s"
  by (simp add: addNum_def mulNum_def roundToDouble_zero isDouble_def)

text \<open>Four roundings lie between the chunk's end and the end of the last word: of the
  duration, of its division by the number of words, of the product with that number, and
  of the sum with the start. Each changes its result by at most one part in \<open>2^53\<close>.\<close>

lemma rounding_chain:
  fixes \<epsilon> :: real
  assumes eps: "0 \<le> \<epsilon>" "\<epsilon> \<le> 1 / 8"
    and a: "\<bar>a - D\<bar> \<le> \<epsilon> * \<bar>D\<bar>"
    and m: "\<bar>m - a\<bar> \<le> \<epsilon> * \<bar>a\<bar>"
    and p: "\<bar>p - m\<bar> \<le> \<epsilon> * \<bar>m\<bar>"
    and l: "\<bar>L - (S + p)\<bar> \<le> \<epsilon> * \<bar>S + p\<bar>"
  shows "\<bar>L - (S + D)\<bar> \<le> \<epsilon> * (\<bar>S + D\<bar> + 5 * \<bar>D\<bar>)"
proof -
  define t where "t = \<epsilon> * \<bar>D\<bar>"
  have t0: "0 \<le> t" using eps(1) by (simp add: t_def)
  have et: "\<epsilon> * t \<le> t / 8"
    using mult_right_mono [OF eps(2) t0] by simp
  have a1: "\<bar>a\<bar> \<le> \<bar>D\<bar> + t" using a unfolding t_def by linarith
  have "\<epsilon> * \<bar>a\<bar> \<le> \<epsilon> * (\<bar>D\<bar> + t)" using a1 eps(1) by (rule mult_left_mono)
  then have ea: "\<epsilon> * \<bar>a\<bar> \<le> t + t / 8" using et by (simp add: t_def distrib_left)
  have m1: "\<bar>m\<bar> \<le> \<bar>D\<bar> + 17 / 8 * t" using m a1 ea by linarith
  have "\<epsilon> * \<bar>m\<bar> \<le> \<epsilon> * (\<bar>D\<bar> + 17 / 8 * t)" using m1 eps(1) by (rule mult_left_mono)
  then have em: "\<epsilon> * \<bar>m\<bar> \<le> t + 17 / 64 * t" using et by (simp add: t_def distrib_left)
  have pd: "\<bar>p - D\<bar> \<le> 4 * t" using p m a em ea t0 unfolding t_def by linarith
  have "\<bar>S + p\<bar> \<le> \<bar>S + D\<bar> + 4 * t" using pd by linarith
  then have "\<epsilon> * \<bar>S + p\<bar> \<le> \<epsilon> * (\<bar>S + D\<bar> + 4 * t)" using eps(1) by (rule mult_left_mono)
  then have "\<epsilon> * \<bar>S + p\<bar> \<le> \<epsilon> * \<bar>S + D\<bar> + t / 2" using et by (simp add: distrib_left)
  then have "\<bar>L - (S + D)\<bar> \<le> \<epsilon> * \<bar>S + D\<bar> + 5 * t" using l pd t0 by linarith
  then show ?thesis by (simp add: t_def distrib_left)
qed

lemma roundToDouble_relative: "\<bar>roundToDouble x - x\<bar> \<le> 1 / 2 ^ 53 * \<bar>x\<bar>"
  using roundToDouble_error [of x] by simp

lemma last_boundary_error:
  assumes "0 < n"
  shows "\<bar>addNum s (mulNum (real n) (divNum (subNum e s) (real n))) - e\<bar>
           \<le> (\<bar>e\<bar> + 5 * \<bar>e - s\<bar>) / 2 ^ 53"
proof -
  define a where "a = roundToDouble (e - s)"
  define d where "d = roundToDouble (a / real n)"
  define p where "p = roundToDouble (real n * d)"
  define L where "L = roundToDouble (s + p)"
  have n: "0 < real n" using assms by simp
  have "\<bar>real n * d - a\<bar> = real n * \<bar>d - a / real n\<bar>"
  proof -
    have "real n * d - a = real n * (d - a / real n)" using n by (simp add: right_diff_distrib)
    then show ?thesis using n by (simp add: abs_mult)
  qed
  also have "\<dots> \<le> real n * (1 / 2 ^ 53 * \<bar>a / real n\<bar>)"
    using roundToDouble_relative [of "a / real n"] n by (intro mult_left_mono) (simp_all add: d_def)
  also have "\<dots> = 1 / 2 ^ 53 * \<bar>a\<bar>" using n by (simp add: abs_divide)
  finally have m: "\<bar>real n * d - a\<bar> \<le> 1 / 2 ^ 53 * \<bar>a\<bar>" .
  have "\<bar>L - (s + (e - s))\<bar> \<le> 1 / 2 ^ 53 * (\<bar>s + (e - s)\<bar> + 5 * \<bar>e - s\<bar>)"
  proof (rule rounding_chain [where a = a and m = "real n * d" and p = p])
    show "\<bar>a - (e - s)\<bar> \<le> 1 / 2 ^ 53 * \<bar>e - s\<bar>"
      unfolding a_def by (rule roundToDouble_relative)
    show "\<bar>real n * d - a\<bar> \<le> 1 / 2 ^ 53 * \<bar>a\<bar>" by (rule m)
    show "\<bar>p - real n * d\<bar> \<le> 1 / 2 ^ 53 * \<bar>real n * d\<bar>"
      unfolding p_def by (rule roundToDouble_relative)
    show "\<bar>L - (s + p)\<bar> \<le> 1 / 2 ^ 53 * \<bar>s + p\<bar>"
      unfolding L_def by (rule roundToDouble_relative)
  qed simp_all
  then show ?thesis
    by (simp add: L_def p_def d_def a_def addNum_def mulNum_def divNum_def subNum_def)
qed

lemma convertChunk_fallback:
  assumes "\<not> present (rc_words chunk)" "\<not> present (wo_words out)"
  shows "convertChunk out chunk =
          \<lparr> c_words = fallbackWords (mulNum (fst (rc_timestamp chunk)) 1000)
                         (mulNum (snd (rc_timestamp chunk)) 1000) (rc_text chunk),
            c_startTime = mulNum (fst (rc_timestamp chunk)) 1000,
            c_endTime = mulNum (snd (rc_timestamp chunk)) 1000,
            c_text = trim (rc_text chunk) \<rparr>"
  using assms by (simp add: convertChunk_def Let_def)

lemma createTranscript_chunks:
  "wo_chunks out = Some chunks \<Longrightarrow>
   t_chunks (createTranscriptFromWhisperOutput uuid out) = map (convertChunk out) chunks"
  by (simp add: createTranscriptFromWhisperOutput_def Let_def)

text \<open>
  Claim C4. A chunk with no word list of its own, in an output with no flat word list, gets
  synthesized words: one for every word of the chunk's text, in order, and a single empty
  word when the text has none. With \<open>n\<close> words and
  \<open>wordDuration = (endTime - startTime) / n\<close>, word \<open>k\<close> starts at
  \<open>startTime + k * wordDuration\<close> and ends at \<open>startTime + (k + 1) * wordDuration\<close>, every
  operation rounded: each word ends where the next one starts, the first starts at the
  chunk's start, and the durations add up to the last end minus the chunk's start. The
  last end differs from the chunk's end by at most
  \<open>(|endTime| + 5 * |endTime - startTime|) / 2^53\<close>. The counterexample below has a last
  end, and a sum of the durations, that are not the chunk's.
\<close>

theorem createTranscript_fallback_words:
  assumes "wo_chunks out = Some chunks" and "i < length chunks"
    and "\<not> present (rc_words (chunks ! i))" and "\<not> present (wo_words out)"
  shows "let chunk = chunks ! i;
             tc = t_chunks (createTranscriptFromWhisperOutput uuid out) ! i;
             startTime = c_startTime tc;
             endTime = c_endTime tc;
             pieces = (if wordsOf (rc_text chunk) = [] then [[]] else wordsOf (rc_text chunk));
             n = length pieces;
             wordDuration = divNum (subNum endTime startTime) (real n);
             boundary = (\<lambda>k. addNum startTime (mulNum (real k) wordDuration))
         in startTime = mulNum (fst (rc_timestamp chunk)) 1000
          \<and> endTime = mulNum (snd (rc_timestamp chunk)) 1000
          \<and> n > 0
          \<and> length (c_words tc) = n
          \<and> map w_text (c_words tc) = pieces
          \<and> (\<forall>k<n. w_startTime (c_words tc ! k) = boundary k
                  \<and> w_endTime (c_words tc ! k) = boundary (k + 1))
          \<and> boundary 0 = startTime
          \<and> sum_list (map (\<lambda>w. w_endTime w - w_startTime w) (c_words tc))
               = boundary n - startTime
          \<and> \<bar>boundary n - endTime\<bar> \<le> (\<bar>endTime\<bar> + 5 * \<bar>endTime - startTime\<bar>) / 2 ^ 53"
proof -
  define s where "s = mulNum (fst (rc_timestamp (chunks ! i))) 1000"
  define e where "e = mulNum (snd (rc_timestamp (chunks ! i))) 1000"
  define t where "t = rc_text (chunks ! i)"
  have tc: "t_chunks (createTranscriptFromWhisperOutput uuid out) ! i
            = \<lparr> c_words = fallbackWords s e t, c_startTime = s, c_endTime = e, c_text = trim t \<rparr>"
    using assms by (simp add: createTranscript_chunks convertChunk_fallback s_def e_def t_def)
  have pieces: "(if wordsOf t = [] then [[]] else wordsOf t) = splitWhitespace (trim t)"
    by (simp only: splitWhitespace_trim)
  have n: "0 < length (splitWhitespace (trim t))" by (rule splitWhitespace_nonempty)
  have first: "addNum s (mulNum 0 d) = s" for d
    by (rule first_boundary) (simp add: s_def isDouble_mulNum)
  have sum: "sum_list (map (\<lambda>w. w_endTime w - w_startTime w) (fallbackWords s e t))
             = addNum s (mulNum (real (length (splitWhitespace (trim t))))
                          (divNum (subNum e s) (real (length (splitWhitespace (trim t)))))) - s"
    by (simp only: fallbackWords_sum first)
  show ?thesis
    unfolding Let_def tc s_def [symmetric] e_def [symmetric] t_def [symmetric] pieces
    using n sum last_boundary_error [OF n, of s e]
    by (simp add: fallbackWords_length fallbackWords_text fallbackWords_nth first)
qed

theorem createTranscript_fallback_words_witness:
  "wo_chunks exampleOutput
     = Some [\<lparr> rc_timestamp = (0, 2), rc_text = ''hello world'', rc_words = None \<rparr>,
             \<lparr> rc_timestamp = (2.5, 4), rc_text = ''goodbye'', rc_words = None \<rparr>]
   \<and> \<not> present (rc_words \<lparr> rc_timestamp = (0, 2), rc_text = ''hello world'', rc_words = None \<rparr>)
   \<and> \<not> present (wo_words exampleOutput)
   \<and> wordsOf ''hello world'' = [''hello'', ''world'']
   \<and> c_words (t_chunks (createTranscriptFromWhisperOutput ''t1'' exampleOutput) ! 0)
       = [\<lparr> w_text = ''hello'', w_startTime = 0, w_endTime = 1000 \<rparr>,
          \<lparr> w_text = ''world'', w_startTime = 1000, w_endTime = 2000 \<rparr>]
   \<and> map w_text (c_words (t_chunks (createTranscriptFromWhisperOutput ''t1'' exampleOutput) ! 0))
       = wordsOf ''hello world''"
proof -
  let ?chunks = "[\<lparr> rc_timestamp = (0, 2), rc_text = ''hello world'', rc_words = None \<rparr>,
             \<lparr> rc_timestamp = (2.5, 4), rc_text = ''goodbye'', rc_words = None \<rparr>]"
  have a: "wo_chunks exampleOutput = Some ?chunks" by (simp add: exampleOutput_def)
  have b: "0 < length ?chunks" by simp
  have c: "\<not> present (rc_words (?chunks ! 0))" by (simp add: present_def)
  have d: "\<not> present (wo_words exampleOutput)" by (simp add: present_def exampleOutput_def)
  have w: "c_words (t_chunks (createTranscriptFromWhisperOutput ''t1'' exampleOutput) ! 0)
       = [\<lparr> w_text = ''hello'', w_startTime = 0, w_endTime = 1000 \<rparr>,
          \<lparr> w_text = ''world'', w_startTime = 1000, w_endTime = 2000 \<rparr>]"
    by (simp add: example_defs)
  have p: "wordsOf ''hello world'' = [''hello'', ''world'']"
    by (simp add: wordsOf.simps isWhitespace_def)
  have "map w_text (c_words (t_chunks (createTranscriptFromWhisperOutput ''t1'' exampleOutput) ! 0))
        = (if wordsOf (rc_text (?chunks ! 0)) = [] then [[]] else wordsOf (rc_text (?chunks ! 0)))"
    using createTranscript_fallback_words [OF a b c d, of "''t1''"]
    by (simp only: Let_def)
  then have "map w_text (c_words (t_chunks (createTranscriptFromWhisperOutput ''t1'' exampleOutput) ! 0))
        = wordsOf ''hello world''"
    by (simp add: p)
  then show ?thesis using a c d w p by simp
qed

text \<open>Fifteen words in a chunk from \<open>0\<close> to \<open>1\<close> second: a word gets
  \<open>1000 / 15 = 66.66666666666667\<close> ms, fifteen times that is \<open>1000.0000000000001\<close>, and
  this is the end of the last word and the sum of the durations.\<close>

theorem createTranscript_fallback_words_counterexample:
  "let tc = t_chunks (createTranscriptFromWhisperOutput ''t1'' fifteenWordsOutput) ! 0
   in c_startTime tc = 0
    \<and> c_endTime tc = 1000
    \<and> length (c_words tc) = 15
    \<and> w_endTime (c_words tc ! 14) = 1000 + 1 / 2 ^ 43
    \<and> sum_list (map (\<lambda>w. w_endTime w - w_startTime w) (c_words tc)) = 1000 + 1 / 2 ^ 43
    \<and> sum_list (map (\<lambda>w. w_endTime w - w_startTime w) (c_words tc))
         \<noteq> c_endTime tc - c_startTime tc"
proof -
  let ?t = "''a b c d e f g h i j k l m n o''"
  have tc: "t_chunks (createTranscriptFromWhisperOutput ''t1'' fifteenWordsOutput) ! 0
            = \<lparr> c_words = fallbackWords 0 1000 ?t, c_startTime = 0, c_endTime = 1000,
                c_text = trim ?t \<rparr>"
    by (simp add: createTranscriptFromWhisperOutput_def convertChunk_def present_def
        fifteenWordsOutput_def double_eval)
  have n: "length (splitWhitespace (trim ?t)) = 15"
    by (simp add: splitWhitespace_def trim_def isWhitespace_def)
  have last_end: "addNum 0 (mulNum 15 (divNum (subNum 1000 0) 15)) = 8796093022208001 / 8796093022208"
    by (simp add: addNum_def mulNum_def divNum_def subNum_def roundToDouble_numeral rounding_eval)
  have w: "w_endTime (fallbackWords 0 1000 ?t ! 14) = 8796093022208001 / 8796093022208"
    using fallbackWords_nth [of 14 ?t 0 1000] last_end by (simp add: n)
  have s: "sum_list (map (\<lambda>w. w_endTime w - w_startTime w) (fallbackWords 0 1000 ?t))
           = 8796093022208001 / 8796093022208"
    using fallbackWords_sum [of 0 1000 ?t] last_end
    by (simp add: n first_boundary isDouble_0)
  show ?thesis
    unfolding Let_def tc using n w s by (simp add: fallbackWords_length)
qed

section \<open>Mixing and normalization\<close>




















section \<open>Extraction when the trim leaves nothing\<close>

lemma trimAudioBuffer_silent:
  assumes "min \<lfloor>d * ab_sampleRate b\<rfloor>
             (int (ab_length b) - max 0 (min \<lfloor>s * ab_sampleRate b\<rfloor> (int (ab_length b) - 1))) \<le> 0"
  shows "trimAudioBuffer b s d = createBuffer (numberOfChannels b) 1 (ab_sampleRate b)"
  using assms by (simp add: trimAudioBuffer_def Let_def)

lemma trimAudioBuffer_nonpositive:
  assumes "d \<le> 0" and "0 \<le> ab_sampleRate b"
  shows "trimAudioBuffer b s d = createBuffer (numberOfChannels b) 1 (ab_sampleRate b)"
proof (rule trimAudioBuffer_silent)
  have "d * ab_sampleRate b \<le> 0" using assms by (simp add: mult_nonpos_nonneg)
  then have "\<lfloor>d * ab_sampleRate b\<rfloor> \<le> 0" by (simp add: floor_le_iff)
  then show "min \<lfloor>d * ab_sampleRate b\<rfloor>
             (int (ab_length b) - max 0 (min \<lfloor>s * ab_sampleRate b\<rfloor> (int (ab_length b) - 1))) \<le> 0"
    by (rule min.coboundedI1)
qed

lemma segmentOf_excluded: "effectiveDuration (fst em) \<le> 0 \<Longrightarrow> segmentOf decode em = []"
  by (simp add: segmentOf_def Let_def split: option.splits sum.splits)

lemma segments_filter:
  "concat (map (segmentOf decode) ems)
   = concat (map (segmentOf decode) (filter (\<lambda>em. effectiveDuration (fst em) > 0) ems))"
  by (induction ems) (simp_all add: segmentOf_excluded)

lemma extractAudioFromTrack_all_trimmed:
  assumes "\<forall>em \<in> set (audioElementsOf elements mediaItems). effectiveDuration (fst em) \<le> 0"
  shows "extractAudioFromTrack decode elements mediaItems
         = Inl (Error (if audioElementsOf elements mediaItems = []
                       then ''No audio elements found in track''
                       else ''No audio segments could be processed''))"
proof -
  have "concat (map (segmentOf decode) (audioElementsOf elements mediaItems)) = []"
    using assms by (simp add: segmentOf_excluded)
  then show ?thesis by (simp add: extractAudioFromTrack_def Let_def)
qed

lemma extractAudioFromElement_trimmed:
  assumes "e_duration element \<noteq> 0" and "effectiveDuration element \<le> 0"
    and "m_file item = Some f" and "decode f = Inr b"
  shows "extractAudioFromElement decode element (Some item)
         = Inl (Error ''Failed to extract audio: Invalid audio duration after trimming'')"
proof -
  have "extractBody b element = Inl ''Invalid audio duration after trimming''"
    using assms(1,2) by (simp add: extractBody_def orElse_def effectiveDuration_def Let_def)
  then show ?thesis using assms(3,4) by (simp add: extractAudioFromElement_def)
qed

text \<open>
  Claim C2, as the code has it. \<open>trimAudioBuffer\<close> is total and returns one silent sample
  per channel whenever the clamped sample count is not positive, in particular whenever the
  requested duration is not positive (and the sample rate not negative). In
  \<open>extractAudioFromTrack\<close> an element whose effective duration is not positive contributes
  no segment; when no element has a positive effective duration the extraction raises.
  \<open>extractAudioFromElement\<close> raises for an element with a non-zero duration whose
  effective duration is not positive.
\<close>

theorem extraction_with_empty_trim:
  "(min \<lfloor>d * ab_sampleRate b\<rfloor>
        (int (ab_length b) - max 0 (min \<lfloor>s * ab_sampleRate b\<rfloor> (int (ab_length b) - 1))) \<le> 0
      \<longrightarrow> trimAudioBuffer b s d = createBuffer (numberOfChannels b) 1 (ab_sampleRate b))
   \<and> (d \<le> 0 \<and> 0 \<le> ab_sampleRate b
      \<longrightarrow> trimAudioBuffer b s d = createBuffer (numberOfChannels b) 1 (ab_sampleRate b))
   \<and> createBuffer (numberOfChannels b) 1 (ab_sampleRate b)
       = \<lparr> ab_sampleRate = ab_sampleRate b, ab_length = 1,
           ab_channelData = replicate (length (ab_channelData b)) [0] \<rparr>
   \<and> (effectiveDuration (fst em) \<le> 0 \<longrightarrow> segmentOf decode em = [])
   \<and> concat (map (segmentOf decode) ems)
       = concat (map (segmentOf decode) (filter (\<lambda>em. effectiveDuration (fst em) > 0) ems))
   \<and> ((\<forall>em \<in> set (audioElementsOf elements mediaItems). effectiveDuration (fst em) \<le> 0)
      \<longrightarrow> extractAudioFromTrack decode elements mediaItems
          = Inl (Error (if audioElementsOf elements mediaItems = []
                        then ''No audio elements found in track''
                        else ''No audio segments could be processed'')))
   \<and> (e_duration element \<noteq> 0 \<and> effectiveDuration element \<le> 0
        \<and> m_file item = Some f \<and> decode f = Inr b
      \<longrightarrow> extractAudioFromElement decode element (Some item)
          = Inl (Error ''Failed to extract audio: Invalid audio duration after trimming''))"
proof (intro conjI impI)
  show "concat (map (segmentOf decode) ems)
       = concat (map (segmentOf decode) (filter (\<lambda>em. effectiveDuration (fst em) > 0) ems))"
    by (rule segments_filter)
qed (simp_all add: trimAudioBuffer_silent trimAudioBuffer_nonpositive segmentOf_excluded
      extractAudioFromTrack_all_trimmed extractAudioFromElement_trimmed createBuffer_def
      numberOfChannels_def)

theorem extraction_with_empty_trim_witness:
  "(0::real) \<le> 0 \<and> 0 \<le> ab_sampleRate (monoBuffer 2 [0.5, 0.25])
   \<and> trimAudioBuffer (monoBuffer 2 [0.5, 0.25]) 1 0
       = \<lparr> ab_sampleRate = 2, ab_length = 1, ab_channelData = [[0]] \<rparr>
   \<and> effectiveDuration (fst (trimmedOutElement, exampleItem)) \<le> 0
   \<and> segmentOf exampleDecode (trimmedOutElement, exampleItem) = []
   \<and> audioElementsOf [trimmedOutElement] [exampleItem] = [(trimmedOutElement, exampleItem)]
   \<and> extractAudioFromTrack exampleDecode [trimmedOutElement] [exampleItem]
       = Inl (Error ''No audio segments could be processed'')
   \<and> e_duration trimmedOutElement \<noteq> 0
   \<and> m_file exampleItem = Some ''clip.wav''
   \<and> exampleDecode ''clip.wav'' = Inr (monoBuffer 2 [0.5, 0.25])
   \<and> extractAudioFromElement exampleDecode trimmedOutElement (Some exampleItem)
       = Inl (Error ''Failed to extract audio: Invalid audio duration after trimming'')"
proof -
  have els: "audioElementsOf [trimmedOutElement] [exampleItem] = [(trimmedOutElement, exampleItem)]"
    by (simp add: audioElementsOf_def trimmedOutElement_def exampleItem_def)
  have eff: "effectiveDuration trimmedOutElement \<le> 0"
    by (simp add: effectiveDuration_def trimmedOutElement_def)
  have sr: "0 \<le> ab_sampleRate (monoBuffer 2 [0.5, 0.25])" by (simp add: monoBuffer_def)
  have dur: "e_duration trimmedOutElement \<noteq> 0" by (simp add: trimmedOutElement_def)
  have fl: "m_file exampleItem = Some ''clip.wav''" by (simp add: exampleItem_def)
  have dec: "exampleDecode ''clip.wav'' = Inr (monoBuffer 2 [0.5, 0.25])"
    by (simp add: exampleDecode_def)
  show ?thesis
    using extraction_with_empty_trim
      [where d = 0 and b = "monoBuffer 2 [0.5, 0.25]" and s = 1
         and em = "(trimmedOutElement, exampleItem)" and decode = exampleDecode
         and ems = "[(trimmedOutElement, exampleItem)]"
         and elements = "[trimmedOutElement]" and mediaItems = "[exampleItem]"
         and element = trimmedOutElement and item = exampleItem and f = "''clip.wav''"]
      els eff sr dur fl dec
    by (simp add: monoBuffer_def)
qed

text \<open>
  Claim C2 as stated fails: for the selected element below, whose trim leaves nothing,
  \<open>extractAudioFromElement\<close> raises.
\<close>

theorem extractAudioFromElement_raises:
  "effectiveDuration trimmedOutElement \<le> 0
   \<and> extractAudioFromElement exampleDecode trimmedOutElement (Some exampleItem)
       = Inl (Error ''Failed to extract audio: Invalid audio duration after trimming'')"
  by (simp add: effectiveDuration_def trimmedOutElement_def extractAudioFromElement_def
      exampleItem_def exampleDecode_def extractBody_def orElse_def monoBuffer_def ab_duration_def)

section \<open>Progress reported while transcribing\<close>

lemma callback_function_chunks_length:
  "length (ts_chunks (fst (callback_function text st))) = length (ts_chunks st)"
  by (cases "ts_chunks st = []") (simp_all add: callback_function_def Let_def)

text \<open>
  Claim C7, as the code has it. \<open>callback_function\<close> posts nothing while no chunk has been
  opened. Otherwise it posts one \<open>transcribing\<close> update whose percentage is
  \<open>min 95 (chunk_count * 15 + chunks.length * 5)\<close>, where \<open>chunk_count\<close> counts the
  completed windows and \<open>chunks.length\<close> counts every chunk opened so far, finalised or
  not; the percentage is at most 95. Only the \<open>chunks\<close> member of the update is
  restricted to the finalised chunks.
\<close>

theorem callback_function_progress:
  "(ts_chunks st = [] \<longrightarrow> callback_function text st = (st, None))
   \<and> (ts_chunks st \<noteq> [] \<longrightarrow>
        (\<exists>st' updateData.
           callback_function text st = (st', Some updateData)
           \<and> ud_stage updateData = Some Transcribing
           \<and> ud_progress updateData
               = real (min 95 (ts_chunk_count st * 15 + length (ts_chunks st) * 5))
           \<and> ud_progress updateData \<le> 95
           \<and> ud_chunks updateData = filter sc_finalised (ts_chunks st')
           \<and> length (ts_chunks st') = length (ts_chunks st)
           \<and> ts_chunk_count st' = ts_chunk_count st))"
  by (simp add: callback_function_def Let_def)

theorem callback_function_progress_witness:
  "ts_chunks firstChunkState \<noteq> []
   \<and> map_option ud_progress (snd (callback_function ''Hello'' firstChunkState)) = Some 5
   \<and> map_option ud_stage (snd (callback_function ''Hello'' firstChunkState)) = Some (Some Transcribing)"
proof -
  have ne: "ts_chunks firstChunkState \<noteq> []"
    by (simp add: firstChunkState_def on_chunk_start_def initialTranscribeState_def Let_def)
  have n: "ts_chunk_count firstChunkState = 0" "length (ts_chunks firstChunkState) = 1"
    by (simp_all add: firstChunkState_def on_chunk_start_def initialTranscribeState_def Let_def)
  show ?thesis
    using callback_function_progress [of firstChunkState "''Hello''"] ne n by auto
qed

text \<open>
  Claim C7 as stated fails: after the first window has opened its chunk and before that
  chunk is finalised, no window is complete and no chunk is finalised, so the stated
  formula gives 0, and the update carries 5.
\<close>

theorem callback_function_progress_counterexample:
  "ts_chunk_count firstChunkState = 0
   \<and> finalizedChunkCount firstChunkState = 0
   \<and> map_option ud_progress (snd (callback_function ''Hello'' firstChunkState)) = Some 5
   \<and> map_option ud_progress (snd (callback_function ''Hello'' firstChunkState))
       \<noteq> Some (real (min 95 (ts_chunk_count firstChunkState * 15
                               + finalizedChunkCount firstChunkState * 5)))
   \<and> finalizedChunkCount (fst (callback_function ''Hello'' firstChunkState)) = 0"
  by (simp add: firstChunkState_def on_chunk_start_def initialTranscribeState_def
      callback_function_def finalizedChunkCount_def Let_def)

section \<open>The error stage of the store\<close>

lemma statusOk_terminateWorker: "statusOk s \<Longrightarrow> statusOk (terminateWorker s)"
  by (simp add: statusOk_def terminateWorker_def)

lemma statusOk_initializeWorker:
  "statusOk s \<Longrightarrow> statusOk (snd (snd (initializeWorker created posted initPromise s)))"
  by (auto simp: statusOk_def initializeWorker_def terminateWorker_def errorStatus_def Let_def
      split: option.splits sum.splits)

lemma statusOk_onmessage:
  "statusOk s \<Longrightarrow> workerSends message \<Longrightarrow> statusOk (onmessage message elementInfo uuids s)"
  by (cases message)
     (auto simp: statusOk_def onmessage_def errorStatus_def Let_def split: option.splits)

lemma reachable_statusOk: "reachable s \<Longrightarrow> statusOk s"
proof (induction rule: reachable.induct)
  case initial
  show ?case by (simp add: statusOk_def initialStore_def)
next
  case (initialize s created posted initPromise)
  then show ?case by (simp add: statusOk_initializeWorker)
next
  case (message s message elementInfo uuids)
  then show ?case by (simp add: statusOk_onmessage)
next
  case (worker_error s errorMsg)
  then show ?case by (simp add: statusOk_def onerror_def errorStatus_def)
next
  case (succeeded s backendConfig modelName)
  then show ?case by (simp add: statusOk_def initializationSucceeded_def)
next
  case (failed s errorMsg)
  then show ?case by (simp add: statusOk_def initializationFailed_def errorStatus_def)
next
  case (terminate s)
  then show ?case by (simp add: statusOk_terminateWorker)
next
  case (select_model s modelName created posted initPromise)
  have "statusOk (s\<lparr>st_selectedModel := modelName\<rparr>)"
    using select_model.IH by (simp add: statusOk_def)
  then show ?case
    using statusOk_initializeWorker [of "s\<lparr>st_selectedModel := modelName\<rparr>" created posted initPromise]
    by (simp add: setSelectedModel_def Let_def)
next
  case (process_started s)
  then show ?case by (simp add: statusOk_def processStarted_def)
next
  case (process_failed s errorMsg)
  then show ?case by (simp add: statusOk_def processFailed_def errorStatus_def)
next
  case (clear s)
  then show ?case by (simp add: statusOk_def clearResults_def)
next
  case (reset s)
  then show ?case by (simp add: statusOk_def resetState_def Let_def)
next
  case (remove s resultId)
  then show ?case by (simp add: statusOk_def removeResult_def)
next
  case (capabilities s caps)
  then show ?case by (simp add: statusOk_def loadDeviceCapabilities_def)
next
  case (insert s elementInfo resultId mode)
  then show ?case by (simp add: statusOk_def insertResult_def split: option.splits prod.splits)
qed

text \<open>
  Claim C8. In every reachable state of the store, the stage \<open>error\<close> implies that
  \<open>isProcessing\<close> is false. The \<open>update\<close> handler copies the stage of the message with
  \<open>isProcessing = true\<close>; the worker never posts an update whose stage is \<open>error\<close>,
  which is what \<^const>\<open>workerSends\<close> records.
\<close>

theorem error_stage_not_processing:
  assumes "reachable s" and "ps_stage (st_processingStatus s) = ErrorStage"
  shows "\<not> ps_isProcessing (st_processingStatus s)"
  using reachable_statusOk [OF assms(1)] assms(2) by (simp add: statusOk_def)

lemma inFlightStore_eq:
  "inFlightStore = initialStore\<lparr>st_worker := Some 1, st_initializationPromise := Some 7\<rparr>"
  by (simp add: inFlightStore_def initializeWorker_def initialStore_def Let_def)

theorem error_stage_not_processing_witness:
  "reachable failedStore
   \<and> ps_stage (st_processingStatus failedStore) = ErrorStage
   \<and> ps_error (st_processingStatus failedStore) = Some ''boom''
   \<and> \<not> ps_isProcessing (st_processingStatus failedStore)"
proof -
  have r1: "reachable inFlightStore"
    unfolding inFlightStore_def by (rule reachable.initialize [OF reachable.initial])
  have r2: "reachable failedStore"
    unfolding failedStore_def by (rule reachable.message [OF r1]) simp
  have st: "ps_stage (st_processingStatus failedStore) = ErrorStage"
    and er: "ps_error (st_processingStatus failedStore) = Some ''boom''"
    by (simp_all add: failedStore_def inFlightStore_eq onmessage_def initialStore_def errorStatus_def)
  show ?thesis
    using error_stage_not_processing [OF r2 st] r2 st er by simp
qed

section \<open>Single-flight initialization\<close>

text \<open>
  Claim C9. A call of \<open>initializeWorker\<close> while an initialization promise is stored
  returns that promise, has no effect outside the store (no worker is terminated or
  created, no message is posted) and leaves the whole state as it was.
\<close>

theorem initializeWorker_single_flight:
  assumes "st_initializationPromise s = Some promise"
  shows "initializeWorker created posted initPromise s = (promise, [], s)"
  using assms by (simp add: initializeWorker_def)

theorem initializeWorker_single_flight_witness:
  "st_initializationPromise inFlightStore = Some 7
   \<and> initializeWorker (Inr 2) None 8 inFlightStore = (7, [], inFlightStore)
   \<and> fst (snd (initializeWorker (Inr 1) None 7 initialStore)) = [WorkerCreated 1, TestMessagePosted 1]"
proof -
  have p: "st_initializationPromise inFlightStore = Some 7" by (simp add: inFlightStore_eq)
  show ?thesis
    using initializeWorker_single_flight [OF p, of "Inr 2" None 8] p
    by (simp add: initializeWorker_def initialStore_def Let_def)
qed

section \<open>Subtitle export\<close>

text \<open>The whole part of a rounded quotient, when the exact quotient lies between a whole
  number and its half: these two are doubles, and rounding keeps the order.\<close>

lemma floor_roundToDouble:
  assumes "of_int k \<le> x" and "x \<le> of_int k + 1 / 2" and "\<bar>k\<bar> < 2 ^ 52"
  shows "\<lfloor>roundToDouble x\<rfloor> = k"
proof -
  have "\<bar>k\<bar> \<le> 2 ^ 53" using assms(3) by simp
  then have lo: "roundToDouble (of_int k) = of_int k"
    using roundToDouble_dyadic [of k 0] by simp
  have b: "\<bar>2 * k + 1\<bar> \<le> 2 ^ 53" using assms(3) by simp
  have eq: "real_of_int (2 * k + 1) * 2 powi (- 1) = of_int k + 1 / 2"
    by (simp add: field_simps)
  have hi: "roundToDouble (of_int k + 1 / 2) = of_int k + 1 / 2"
    using roundToDouble_dyadic [OF b, of "- 1"] unfolding eq .
  have "of_int k \<le> roundToDouble x"
    using roundToDouble_mono [OF assms(1)] by (simp only: lo)
  moreover have "roundToDouble x \<le> of_int k + 1 / 2"
    using roundToDouble_mono [OF assms(2)] by (simp only: hi)
  ultimately show ?thesis by linarith
qed

lemma floor_divNum_0: "0 \<le> a / b \<Longrightarrow> a / b \<le> 1 / 2 \<Longrightarrow> \<lfloor>divNum a b\<rfloor> = 0"
  using floor_roundToDouble [of 0 "a / b"] by (simp add: divNum_def)

lemma floor_divNum_1: "1 \<le> a / b \<Longrightarrow> a / b \<le> 3 / 2 \<Longrightarrow> \<lfloor>divNum a b\<rfloor> = 1"
  using floor_roundToDouble [of 1 "a / b"] by (simp add: divNum_def)

lemma floor_divNum_2: "2 \<le> a / b \<Longrightarrow> a / b \<le> 5 / 2 \<Longrightarrow> \<lfloor>divNum a b\<rfloor> = 2"
  using floor_roundToDouble [of 2 "a / b"] by (simp add: divNum_def)

lemma floor_divNum_4: "4 \<le> a / b \<Longrightarrow> a / b \<le> 9 / 2 \<Longrightarrow> \<lfloor>divNum a b\<rfloor> = 4"
  using floor_roundToDouble [of 4 "a / b"] by (simp add: divNum_def)

lemma fraction_not_whole:
  fixes x :: real
  assumes "0 < x" and "x < 1"
  shows "x \<notin> \<int>"
proof
  assume "x \<in> \<int>"
  then obtain k :: int where "x = of_int k" by (rule Ints_cases)
  then show False using assms by simp
qed

lemma replicate_two: "replicate 2 c = [c, c]"
  by (simp add: numeral_2_eq_2)

lemma replicate_three: "replicate 3 c = [c, c, c]"
  by (simp add: numeral_3_eq_3)

lemmas time_eval = millisecondsToSRTTime_def remainder_def numberToString_def
  padStart_def natToString.simps digitChar_def replicate_two replicate_three
  floor_divNum_0 floor_divNum_1 floor_divNum_2 floor_divNum_4

text \<open>Times that are whole numbers of milliseconds come out in the shape
  \<open>HH:MM:SS,mmm\<close>.\<close>

lemma example_times:
  "millisecondsToSRTTime printOther 0 = ''00:00:00,000''"
  "millisecondsToSRTTime printOther 2000 = ''00:00:02,000''"
  "millisecondsToSRTTime printOther 2500 = ''00:00:02,500''"
  "millisecondsToSRTTime printOther 4000 = ''00:00:04,000''"
  by (simp_all add: time_eval)

lemma exampleTranscript_chunks:
  "map (\<lambda>c. (c_startTime c, c_endTime c, c_text c)) (t_chunks exampleTranscript)
     = [(0, 2000, ''hello world''), (2500, 4000, ''goodbye'')]"
  by (simp add: exampleTranscript_def example_defs)

lemma enumerate_map: "enumerate n (map f xs) = map (\<lambda>(i, x). (i, f x)) (enumerate n xs)"
  by (induction xs arbitrary: n) simp_all

lemma srtSegments_times:
  "srtSegments printOther transcript
     = map (\<lambda>(index, (startTime, endTime, chunkText)).
              \<lparr> srt_index = index + 1,
                srt_startTime = millisecondsToSRTTime printOther startTime,
                srt_endTime = millisecondsToSRTTime printOther endTime,
                srt_text = trim chunkText \<rparr>)
           (enumerate 0 (map (\<lambda>c. (c_startTime c, c_endTime c, c_text c)) (t_chunks transcript)))"
  by (simp add: srtSegments_def enumerate_map case_prod_beta comp_def)

lemma example_srt:
  "transcriptToSRT printOther exampleTranscript
   = ''1\<newline>00:00:00,000 --> 00:00:02,000\<newline>hello world\<newline>\<newline>2\<newline>00:00:02,500 --> 00:00:04,000\<newline>goodbye\<newline>''"
  by (simp add: transcriptToSRT_def srtSegments_times exampleTranscript_chunks example_times
      segmentText_def natToString.simps digitChar_def trim_def isWhitespace_def)

text \<open>The chunk that starts at \<open>1.001\<close> seconds: the product \<open>1.001 * 1000\<close> of doubles is
  \<open>1000.9999999999999\<close>, which is \<open>1001 - 2^-43\<close>.\<close>

lemma fraction_chunk:
  "map (\<lambda>c. (c_startTime c, c_endTime c, c_text c))
       (t_chunks (createTranscriptFromWhisperOutput uuid fractionOutput))
     = [(8804889115230207 / 8796093022208, 2000, ''hi'')]"
  by (simp add: createTranscriptFromWhisperOutput_def convertChunk_def present_def Let_def
      fractionOutput_def trim_def isWhitespace_def double_eval rounding_eval)

lemma fraction_time:
  "millisecondsToSRTTime printOther (8804889115230207 / 8796093022208)
     = ''00:00:01,'' @ padStart 3 (CHR ''0'') (printOther (8796093022207 / 8796093022208))"
proof -
  have "(8796093022207 / 8796093022208 :: real) \<notin> \<int>"
    by (rule fraction_not_whole) simp_all
  then show ?thesis by (simp add: time_eval del: padStart_def) (simp add: padStart_def replicate_two)
qed

text \<open>
  Claim C5. The claim has every time written as \<open>HH:MM:SS,mmm\<close>, with three digits for
  the milliseconds, and has the output read back as the original times rounded to the
  millisecond; the comment on \<open>millisecondsToSRTTime\<close> names the same shape. The function
  takes the whole part of the hours, the minutes and the seconds, but prints the remainder
  \<open>ms % 1000\<close> as it is. For the engine chunk from \<open>1.001\<close> to \<open>2\<close> seconds the transcript
  has the start \<open>1.001 * 1000\<close>, which as a product of doubles is \<open>1001 - 2^-43\<close>
  (\<open>1000.9999999999999\<close>); its remainder \<open>1 - 2^-43\<close> is not a whole number, and the field
  is what \<open>toString\<close> prints for it, \<open>0.9999999999998863\<close>, instead of \<open>001\<close>. The
  transcript of the specification's example, with whole milliseconds, is printed in the
  shape of the claim.
\<close>

theorem transcriptToSRT_fractional_milliseconds:
  "map (\<lambda>c. (c_startTime c, c_endTime c, c_text c))
       (t_chunks (createTranscriptFromWhisperOutput uuid fractionOutput))
     = [(mulNum (roundToDouble 1.001) 1000, 2000, ''hi'')]
   \<and> mulNum (roundToDouble 1.001) 1000 = 1001 - 1 / 2 ^ 43
   \<and> remainder (mulNum (roundToDouble 1.001) 1000) 1000 = 1 - 1 / 2 ^ 43
   \<and> (1 - 1 / 2 ^ 43 :: real) \<notin> \<int>
   \<and> transcriptToSRT printOther (createTranscriptFromWhisperOutput uuid fractionOutput)
       = ''1\<newline>00:00:01,'' @ padStart 3 (CHR ''0'') (printOther (1 - 1 / 2 ^ 43))
         @ '' --> 00:00:02,000\<newline>hi\<newline>''
   \<and> transcriptToSRT printFraction (createTranscriptFromWhisperOutput uuid fractionOutput)
       = ''1\<newline>00:00:01,0.9999999999998863 --> 00:00:02,000\<newline>hi\<newline>''
   \<and> transcriptToSRT printOther exampleTranscript
       = ''1\<newline>00:00:00,000 --> 00:00:02,000\<newline>hello world\<newline>\<newline>2\<newline>00:00:02,500 --> 00:00:04,000\<newline>goodbye\<newline>''"
proof -
  have m: "mulNum (roundToDouble 1.001) 1000 = 8804889115230207 / 8796093022208"
    by (simp add: mulNum_def rounding_eval)
  have v: "(8804889115230207 / 8796093022208 :: real) = 1001 - 1 / 2 ^ 43"
    and f: "(8796093022207 / 8796093022208 :: real) = 1 - 1 / 2 ^ 43"
    by simp_all
  have r: "remainder (8804889115230207 / 8796093022208) 1000 = 8796093022207 / 8796093022208"
    by (simp add: remainder_def)
  have n: "(8796093022207 / 8796093022208 :: real) \<notin> \<int>"
    by (rule fraction_not_whole) simp_all
  have s: "transcriptToSRT p (createTranscriptFromWhisperOutput uuid fractionOutput)
           = ''1\<newline>00:00:01,'' @ padStart 3 (CHR ''0'') (p (8796093022207 / 8796093022208))
             @ '' --> 00:00:02,000\<newline>hi\<newline>''" for p
    by (simp add: transcriptToSRT_def srtSegments_times fraction_chunk fraction_time example_times
        segmentText_def natToString.simps digitChar_def trim_def isWhitespace_def del: padStart_def)
  have t: "transcriptToSRT printFraction (createTranscriptFromWhisperOutput uuid fractionOutput)
           = ''1\<newline>00:00:01,0.9999999999998863 --> 00:00:02,000\<newline>hi\<newline>''"
    unfolding s by (simp add: printFraction_def padStart_def)
  show ?thesis
    unfolding m using fraction_chunk [of uuid] r n s [of printOther] t example_srt [of printOther]
    unfolding v f by blast
qed

end
